theory Spec2Isabelle
  imports Complex_Main
begin

section \<open>Data model (app/types.py, app/config.py)\<close>

text \<open>
  Python floats are modelled as reals (exact arithmetic, no rounding, no inf or nan),
  datetimes as integers (an instant in milliseconds since the epoch, UTC), Python ints
  as \<open>int\<close>.  A pandas DataFrame of candles is the list of its rows in row order;
  \<open>df.iloc[i]\<close> is \<open>df ! i\<close> for \<open>i < length df\<close> and \<open>df.iloc[-1]\<close> is
  \<open>last df\<close>.  Division follows the source expression by expression; numpy divides
  by zero without raising (it yields inf or nan), so the model and the code agree on
  the value of a quotient only where the divisor is not zero.
\<close>

datatype PatternType =
  HAMMER | SHOOTING_STAR | DOJI | BULLISH_ENGULFING | BEARISH_ENGULFING
  | MORNING_STAR | EVENING_STAR

datatype ExitReason = TAKE_PROFIT | STOP_LOSS | EMA_BEARISH | FORCED_CLOSE

datatype error = ZeroDivisionError

record Kline =
  timestamp :: int
  open_price :: real
  high :: real
  low :: real
  close :: real
  volume :: real
  close_time :: int
  quote_volume :: real
  trades :: int
  taker_buy_base_volume :: real
  taker_buy_quote_volume :: real

type_synonym DataFrame = "Kline list"

record Position =
  symbol :: string
  timeframe :: string
  entry_time :: int
  entry_price :: real
  quantity :: real
  pattern :: PatternType
  entry_ema_short :: real
  entry_ema_long :: real
  exit_time :: "int option"
  exit_price :: "real option"
  exit_reason :: "ExitReason option"
  exit_ema_short :: "real option"
  exit_ema_long :: "real option"
  pnl :: real
  pnl_percent :: real
  fees :: real
  net_pnl :: real

text \<open>
  The fields of \<open>BacktestResult\<close> that share a name with a field of \<open>Position\<close>
  carry the prefix \<open>result_\<close>.
\<close>

record BacktestResult =
  result_symbol :: string
  result_timeframe :: string
  positions :: "Position list"
  total_trades :: int
  winning_trades :: int
  losing_trades :: int
  win_rate :: real
  total_pnl :: real
  total_fees :: real
  result_net_pnl :: real
  avg_win :: real
  avg_loss :: real
  max_drawdown :: real
  sharpe_ratio :: real
  hodl_return :: real
  hodl_pnl :: real
  first_price :: real
  last_price :: real
  start_date :: "int option"
  end_date :: "int option"
  ema_filter_blocked :: int
  patterns_detected :: int

text \<open>The trading and EMA parameters of \<open>Settings\<close> (app/config.py), prefixed \<open>settings_\<close>.\<close>

record Settings =
  settings_trade_amount :: real
  settings_trade_fee_percent :: real
  settings_take_profit_percent :: real
  settings_stop_loss_percent :: real
  settings_ema_short_period :: int
  settings_ema_long_period :: int

definition settings :: Settings where
  "settings = \<lparr> settings_trade_amount = 100.0,
                settings_trade_fee_percent = 0.001,
                settings_take_profit_percent = 0.08,
                settings_stop_loss_percent = - 0.06,
                settings_ema_short_period = 1,
                settings_ema_long_period = 99 \<rparr>"

record Backtester =
  trade_amount :: real
  fee_percent :: real
  take_profit :: real
  stop_loss :: real
  ema_short_period :: int
  ema_long_period :: int


section \<open>Completed candles and the EMA pair (app/candles.py, app/ema.py)\<close>

text \<open>
  \<open>filter_complete_candles\<close>: the rows whose \<open>close_time\<close> is strictly before the
  cutoff, in row order (an empty frame is returned as it is).
\<close>

definition filter_complete_candles :: "DataFrame \<Rightarrow> int \<Rightarrow> DataFrame" where
  "filter_complete_candles df before_timestamp =
     (if df = [] then df
      else filter (\<lambda>c. close_time c < before_timestamp) df)"

text \<open>
  The loop of \<open>calculate_ema\<close> over the indices \<open>1 ..< len(prices)\<close>: \<open>prev\<close> is
  \<open>ema[i - 1]\<close>, the list holds \<open>prices[i:]\<close>, the result is \<open>ema[i:]\<close>.
\<close>

fun ema_loop :: "real \<Rightarrow> real \<Rightarrow> real list \<Rightarrow> real list" where
  "ema_loop alpha prev [] = []"
| "ema_loop alpha prev (p # ps) =
     (let e = alpha * p + (1 - alpha) * prev in e # ema_loop alpha e ps)"

text \<open>
  \<open>calculate_ema\<close>: the empty array is returned before \<open>alpha\<close> is computed;
  \<open>2.0 / (period + 1)\<close> divides a Python float by a Python int and raises
  ZeroDivisionError when \<open>period = -1\<close>.
\<close>

definition calculate_ema :: "real list \<Rightarrow> int \<Rightarrow> error + real list" where
  "calculate_ema prices period =
     (case prices of
        [] \<Rightarrow> Inr []
      | p0 # ps \<Rightarrow>
          if period + 1 = 0 then Inl ZeroDivisionError
          else (let alpha = 2.0 / real_of_int (period + 1)
                in Inr (p0 # ema_loop alpha p0 ps)))"

definition get_ema_at_timestamp ::
  "DataFrame \<Rightarrow> int \<Rightarrow> int \<Rightarrow> int \<Rightarrow> error + (real option \<times> real option)" where
  "get_ema_at_timestamp df_4h target_timestamp short_period long_period =
     (if df_4h = [] then Inr (None, None)
      else
        (let completed_candles = filter_complete_candles df_4h target_timestamp in
         if length completed_candles = 0 then Inr (None, None)
         else if int (length completed_candles) < max short_period long_period
         then Inr (None, None)
         else
           (let prices = map close completed_candles in
            case calculate_ema prices short_period of
              Inl e \<Rightarrow> Inl e
            | Inr ema_short_array \<Rightarrow>
                (case calculate_ema prices long_period of
                   Inl e \<Rightarrow> Inl e
                 | Inr ema_long_array \<Rightarrow>
                     Inr (if length ema_short_array > 0
                          then Some (last ema_short_array) else None,
                          if length ema_long_array > 0
                          then Some (last ema_long_array) else None)))))"

definition is_ema_bullish :: "DataFrame \<Rightarrow> int \<Rightarrow> int \<Rightarrow> int \<Rightarrow> error + bool" where
  "is_ema_bullish df_4h target_timestamp short_period long_period =
     (case get_ema_at_timestamp df_4h target_timestamp short_period long_period of
        Inl e \<Rightarrow> Inl e
      | Inr (ema_short, ema_long) \<Rightarrow>
          (case (ema_short, ema_long) of
             (Some s, Some l) \<Rightarrow> Inr (s > l)
           | _ \<Rightarrow> Inr False))"


section \<open>Candlestick patterns (app/patterns.py)\<close>

definition detect_hammer :: "Kline \<Rightarrow> bool" where
  "detect_hammer candle =
     (let body = \<bar>close candle - open_price candle\<bar>;
          total_range = high candle - low candle
      in if total_range = 0 then False
         else
           (let upper_shadow = high candle - max (open_price candle) (close candle);
                lower_shadow = min (open_price candle) (close candle) - low candle
            in if body > 0.3 * total_range then False
               else if lower_shadow < 2 * body then False
               else if upper_shadow > 0.1 * total_range then False
               else True))"

definition detect_shooting_star :: "Kline \<Rightarrow> bool" where
  "detect_shooting_star candle =
     (let body = \<bar>close candle - open_price candle\<bar>;
          total_range = high candle - low candle
      in if total_range = 0 then False
         else
           (let upper_shadow = high candle - max (open_price candle) (close candle);
                lower_shadow = min (open_price candle) (close candle) - low candle
            in if body > 0.3 * total_range then False
               else if upper_shadow < 2 * body then False
               else if lower_shadow > 0.1 * total_range then False
               else True))"

definition detect_doji :: "Kline \<Rightarrow> bool" where
  "detect_doji candle =
     (let body = \<bar>close candle - open_price candle\<bar>;
          total_range = high candle - low candle
      in if total_range = 0 then False
         else body \<le> 0.1 * total_range)"

definition detect_bullish_engulfing :: "Kline \<Rightarrow> Kline \<Rightarrow> bool" where
  "detect_bullish_engulfing prev_candle curr_candle =
     (if close prev_candle \<ge> open_price prev_candle then False
      else if close curr_candle \<le> open_price curr_candle then False
      else if open_price curr_candle \<ge> close prev_candle then False
      else if close curr_candle \<le> open_price prev_candle then False
      else True)"

definition detect_bearish_engulfing :: "Kline \<Rightarrow> Kline \<Rightarrow> bool" where
  "detect_bearish_engulfing prev_candle curr_candle =
     (if close prev_candle \<le> open_price prev_candle then False
      else if close curr_candle \<ge> open_price curr_candle then False
      else if open_price curr_candle \<le> close prev_candle then False
      else if close curr_candle \<ge> open_price prev_candle then False
      else True)"

definition detect_morning_star :: "Kline \<Rightarrow> Kline \<Rightarrow> Kline \<Rightarrow> bool" where
  "detect_morning_star first middle third =
     (if close first \<ge> open_price first then False
      else if close third \<le> open_price third then False
      else
        (let first_body = \<bar>close first - open_price first\<bar>;
             middle_body = \<bar>close middle - open_price middle\<bar>
         in if middle_body \<ge> 0.5 * first_body then False
            else
              (let first_midpoint = (open_price first + close first) / 2
               in if close third \<le> first_midpoint then False else True)))"

definition detect_evening_star :: "Kline \<Rightarrow> Kline \<Rightarrow> Kline \<Rightarrow> bool" where
  "detect_evening_star first middle third =
     (if close first \<le> open_price first then False
      else if close third \<ge> open_price third then False
      else
        (let first_body = \<bar>close first - open_price first\<bar>;
             middle_body = \<bar>close middle - open_price middle\<bar>
         in if middle_body \<ge> 0.5 * first_body then False
            else
              (let first_midpoint = (open_price first + close first) / 2
               in if close third \<ge> first_midpoint then False else True)))"

text \<open>
  \<open>detect_patterns\<close>: the index is a Python int; outside \<open>0 ..< len(df)\<close> the result
  is None, so every \<open>iloc\<close> below reads inside the frame.
\<close>

definition detect_patterns :: "DataFrame \<Rightarrow> int \<Rightarrow> PatternType option" where
  "detect_patterns df index =
     (if index < 0 \<or> index \<ge> int (length df) then None
      else
        (let current = df ! nat index in
         if detect_hammer current then Some HAMMER
         else if detect_shooting_star current then Some SHOOTING_STAR
         else if detect_doji current then Some DOJI
         else if index \<ge> 1 \<and> detect_bullish_engulfing (df ! nat (index - 1)) current
         then Some BULLISH_ENGULFING
         else if index \<ge> 1 \<and> detect_bearish_engulfing (df ! nat (index - 1)) current
         then Some BEARISH_ENGULFING
         else if index \<ge> 2
                 \<and> detect_morning_star (df ! nat (index - 2)) (df ! nat (index - 1)) current
         then Some MORNING_STAR
         else if index \<ge> 2
                 \<and> detect_evening_star (df ! nat (index - 2)) (df ! nat (index - 1)) current
         then Some EVENING_STAR
         else None))"

fun is_bullish_pattern :: "PatternType option \<Rightarrow> bool" where
  "is_bullish_pattern None = False"
| "is_bullish_pattern (Some p) = (p \<in> {HAMMER, BULLISH_ENGULFING, MORNING_STAR})"


section \<open>Merging a cached series with new candles (app/cache.py)\<close>






section \<open>The backtester (app/types.py, app/strategy.py)\<close>

text \<open>
  \<open>x or default\<close> on an optional float argument: Python's \<open>or\<close> yields its right
  operand when the left one is falsy, which None and the number zero both are.
\<close>

definition py_or :: "real option \<Rightarrow> real \<Rightarrow> real" where
  "py_or x default_value =
     (case x of
        None \<Rightarrow> default_value
      | Some v \<Rightarrow> if v = 0 then default_value else v)"

text \<open>
  \<open>Backtester.__init__\<close>: each argument is None when it is not passed; the global
  \<open>settings\<close> object is the first parameter.
\<close>

definition Backtester_init ::
  "Settings \<Rightarrow> real option \<Rightarrow> real option \<Rightarrow> real option \<Rightarrow> real option \<Rightarrow> Backtester" where
  "Backtester_init st trade_amount_arg fee_percent_arg take_profit_arg stop_loss_arg =
     \<lparr> trade_amount = py_or trade_amount_arg (settings_trade_amount st),
       fee_percent = py_or fee_percent_arg (settings_trade_fee_percent st),
       take_profit = py_or take_profit_arg (settings_take_profit_percent st),
       stop_loss = py_or stop_loss_arg (settings_stop_loss_percent st),
       ema_short_period = settings_ema_short_period st,
       ema_long_period = settings_ema_long_period st \<rparr>"

text \<open>\<open>Position.calculate_pnl\<close>: the argument is used only when no exit price is stored yet.\<close>

definition calculate_pnl :: "Position \<Rightarrow> real \<Rightarrow> real \<Rightarrow> Position" where
  "calculate_pnl self exit_price_arg fee_percent_arg =
     (let self = (if exit_price self = None
                  then self\<lparr>exit_price := Some exit_price_arg\<rparr> else self);
          gross_pnl = (the (exit_price self) - entry_price self) * quantity self;
          entry_fee = entry_price self * quantity self * fee_percent_arg;
          exit_fee = the (exit_price self) * quantity self * fee_percent_arg;
          self = self\<lparr>fees := entry_fee + exit_fee\<rparr>;
          self = self\<lparr>pnl := gross_pnl\<rparr>;
          self = self\<lparr>net_pnl := gross_pnl - fees self\<rparr>
      in self\<lparr>pnl_percent :=
                (the (exit_price self) - entry_price self) / entry_price self\<rparr>)"

text \<open>The \<open>BacktestResult\<close> built at the start of \<open>backtest\<close>, every other field at its default.\<close>

definition new_result :: "string \<Rightarrow> string \<Rightarrow> DataFrame \<Rightarrow> BacktestResult" where
  "new_result symbol_v timeframe_v df =
     \<lparr> result_symbol = symbol_v, result_timeframe = timeframe_v, positions = [],
       total_trades = 0, winning_trades = 0, losing_trades = 0,
       win_rate = 0, total_pnl = 0, total_fees = 0, result_net_pnl = 0,
       avg_win = 0, avg_loss = 0, max_drawdown = 0, sharpe_ratio = 0,
       hodl_return = 0, hodl_pnl = 0, first_price = 0, last_price = 0,
       start_date = (if length df > 0 then Some (Min (set (map timestamp df))) else None),
       end_date = (if length df > 0 then Some (Max (set (map timestamp df))) else None),
       ema_filter_blocked = 0, patterns_detected = 0 \<rparr>"

text \<open>
  The block that records an exit.  The source has it twice, after the exit checks in
  the loop and for the forced close after the loop, with the same statements: the exit
  fields are stored, the EMA pair at the exit time is queried again, the P&L is
  computed, the position is appended and counted.
\<close>

definition record_exit ::
  "Backtester \<Rightarrow> DataFrame \<Rightarrow> BacktestResult \<Rightarrow> Position \<Rightarrow> int \<Rightarrow> real \<Rightarrow> ExitReason
     \<Rightarrow> error + BacktestResult" where
  "record_exit bt df_4h result current_position ts exit_price_v reason =
     (let current_position = current_position\<lparr>exit_time := Some ts\<rparr>;
          current_position = current_position\<lparr>exit_price := Some exit_price_v\<rparr>;
          current_position = current_position\<lparr>exit_reason := Some reason\<rparr>
      in case get_ema_at_timestamp df_4h ts (ema_short_period bt) (ema_long_period bt) of
           Inl e \<Rightarrow> Inl e
         | Inr (exit_ema_short_v, exit_ema_long_v) \<Rightarrow>
             (let current_position = current_position\<lparr>exit_ema_short := exit_ema_short_v\<rparr>;
                  current_position = current_position\<lparr>exit_ema_long := exit_ema_long_v\<rparr>;
                  current_position = calculate_pnl current_position exit_price_v (fee_percent bt);
                  result = result\<lparr>positions := positions result @ [current_position]\<rparr>;
                  result = result\<lparr>total_trades := total_trades result + 1\<rparr>
              in Inr (if net_pnl current_position > 0
                      then result\<lparr>winning_trades := winning_trades result + 1\<rparr>
                      else result\<lparr>losing_trades := losing_trades result + 1\<rparr>)))"

text \<open>
  The exit checks of the loop body for an open position: the exit reason (None when
  the position stays open) and the exit price.
\<close>

definition check_exit ::
  "Backtester \<Rightarrow> DataFrame \<Rightarrow> Kline \<Rightarrow> Position \<Rightarrow> error + (ExitReason option \<times> real)" where
  "check_exit bt df_4h candle current_position =
     (let exit_price_v = close candle;
          current_return =
            (exit_price_v - entry_price current_position) / entry_price current_position
      in if current_return \<ge> take_profit bt
         then Inr (Some TAKE_PROFIT, entry_price current_position * (1 + take_profit bt))
         else if current_return \<le> stop_loss bt
         then Inr (Some STOP_LOSS, entry_price current_position * (1 + stop_loss bt))
         else if current_return < 0
         then (case get_ema_at_timestamp df_4h (timestamp candle)
                      (ema_short_period bt) (ema_long_period bt) of
                 Inl e \<Rightarrow> Inl e
               | Inr (ema_short, ema_long) \<Rightarrow>
                   if ema_short \<noteq> None \<and> ema_long \<noteq> None \<and> the ema_short < the ema_long
                   then Inr (Some EMA_BEARISH, exit_price_v)
                   else Inr (None, exit_price_v))
         else Inr (None, exit_price_v))"

type_synonym run_state = "BacktestResult \<times> Position option"

text \<open>"Handle open position first": the first half of the loop body.\<close>

definition handle_open_position ::
  "Backtester \<Rightarrow> DataFrame \<Rightarrow> Kline \<Rightarrow> run_state \<Rightarrow> error + run_state" where
  "handle_open_position bt df_4h candle st =
     (case st of
        (result, None) \<Rightarrow> Inr (result, None)
      | (result, Some current_position) \<Rightarrow>
          (case check_exit bt df_4h candle current_position of
             Inl e \<Rightarrow> Inl e
           | Inr (None, exit_price_v) \<Rightarrow> Inr (result, Some current_position)
           | Inr (Some reason, exit_price_v) \<Rightarrow>
               (case record_exit bt df_4h result current_position (timestamp candle)
                       exit_price_v reason of
                  Inl e \<Rightarrow> Inl e
                | Inr result \<Rightarrow> Inr (result, None))))"

text \<open>"Check for entry if no position": the second half of the loop body.\<close>

definition check_entry ::
  "Backtester \<Rightarrow> string \<Rightarrow> string \<Rightarrow> DataFrame \<Rightarrow> Kline \<Rightarrow> PatternType option \<Rightarrow> run_state
     \<Rightarrow> error + run_state" where
  "check_entry bt symbol_v timeframe_v df_4h candle pattern_v st =
     (case st of (result, current_position) \<Rightarrow>
        if current_position = None \<and> pattern_v \<noteq> None \<and> is_bullish_pattern pattern_v
        then (case get_ema_at_timestamp df_4h (timestamp candle)
                     (ema_short_period bt) (ema_long_period bt) of
                Inl e \<Rightarrow> Inl e
              | Inr (ema_short, ema_long) \<Rightarrow>
                  if ema_short \<noteq> None \<and> ema_long \<noteq> None
                  then (if the ema_short > the ema_long
                        then (let entry_price_v = close candle;
                                  quantity_v = trade_amount bt / entry_price_v
                              in Inr (result,
                                   Some \<lparr> symbol = symbol_v, timeframe = timeframe_v,
                                          entry_time = timestamp candle,
                                          entry_price = entry_price_v,
                                          quantity = quantity_v,
                                          pattern = the pattern_v,
                                          entry_ema_short = the ema_short,
                                          entry_ema_long = the ema_long,
                                          exit_time = None, exit_price = None,
                                          exit_reason = None, exit_ema_short = None,
                                          exit_ema_long = None, pnl = 0, pnl_percent = 0,
                                          fees = 0, net_pnl = 0 \<rparr>))
                        else Inr (result\<lparr>ema_filter_blocked := ema_filter_blocked result + 1\<rparr>,
                                  current_position))
                  else Inr (result, current_position))
        else Inr (result, current_position))"

text \<open>One iteration of \<open>for i in range(2, len(df))\<close>.\<close>

definition backtest_step ::
  "Backtester \<Rightarrow> string \<Rightarrow> string \<Rightarrow> DataFrame \<Rightarrow> DataFrame \<Rightarrow> nat \<Rightarrow> run_state
     \<Rightarrow> error + run_state" where
  "backtest_step bt symbol_v timeframe_v df df_4h i st =
     (case st of (result, current_position) \<Rightarrow>
        (let candle = df ! i;
             pattern_v = detect_patterns df (int i);
             result = (if pattern_v \<noteq> None
                       then result\<lparr>patterns_detected := patterns_detected result + 1\<rparr>
                       else result)
         in case handle_open_position bt df_4h candle (result, current_position) of
              Inl e \<Rightarrow> Inl e
            | Inr st' \<Rightarrow> check_entry bt symbol_v timeframe_v df_4h candle pattern_v st'))"

text \<open>The loop over a list of indices; an exception ends it.\<close>

fun backtest_loop ::
  "Backtester \<Rightarrow> string \<Rightarrow> string \<Rightarrow> DataFrame \<Rightarrow> DataFrame \<Rightarrow> nat list \<Rightarrow> run_state
     \<Rightarrow> error + run_state" where
  "backtest_loop bt symbol_v timeframe_v df df_4h [] st = Inr st"
| "backtest_loop bt symbol_v timeframe_v df df_4h (i # is) st =
     (case backtest_step bt symbol_v timeframe_v df df_4h i st of
        Inl e \<Rightarrow> Inl e
      | Inr st' \<Rightarrow> backtest_loop bt symbol_v timeframe_v df df_4h is st')"

text \<open>"Force close any open position at end".\<close>

definition force_close ::
  "Backtester \<Rightarrow> DataFrame \<Rightarrow> DataFrame \<Rightarrow> run_state \<Rightarrow> error + BacktestResult" where
  "force_close bt df df_4h st =
     (case st of
        (result, None) \<Rightarrow> Inr result
      | (result, Some current_position) \<Rightarrow>
          (let last_candle = last df
           in record_exit bt df_4h result current_position (timestamp last_candle)
                (close last_candle) FORCED_CLOSE))"

text \<open>"Calculate aggregate statistics".\<close>

definition aggregate_statistics :: "BacktestResult \<Rightarrow> BacktestResult" where
  "aggregate_statistics result =
     (if total_trades result > 0
      then (let result = result\<lparr>win_rate :=
                   real_of_int (winning_trades result) / real_of_int (total_trades result)\<rparr>;
                result = result\<lparr>total_pnl := sum_list (map pnl (positions result))\<rparr>;
                result = result\<lparr>total_fees := sum_list (map fees (positions result))\<rparr>;
                result = result\<lparr>result_net_pnl := sum_list (map net_pnl (positions result))\<rparr>;
                winning_positions = filter (\<lambda>p. net_pnl p > 0) (positions result);
                losing_positions = filter (\<lambda>p. net_pnl p \<le> 0) (positions result);
                result = (if winning_positions \<noteq> []
                          then result\<lparr>avg_win := sum_list (map net_pnl winning_positions)
                                          / real (length winning_positions)\<rparr>
                          else result)
            in if losing_positions \<noteq> []
               then result\<lparr>avg_loss := sum_list (map net_pnl losing_positions)
                               / real (length losing_positions)\<rparr>
               else result)
      else result)"

text \<open>The HODL benchmark, computed when the frame has at least three rows.\<close>

definition hodl_benchmark :: "Backtester \<Rightarrow> DataFrame \<Rightarrow> BacktestResult \<Rightarrow> BacktestResult" where
  "hodl_benchmark bt df result =
     (if length df > 0
      then (let result = result\<lparr>first_price := close (df ! 0)\<rparr>;
                result = result\<lparr>last_price := close (last df)\<rparr>;
                result = result\<lparr>hodl_return :=
                           (last_price result - first_price result) / first_price result\<rparr>
            in result\<lparr>hodl_pnl := trade_amount bt * hodl_return result\<rparr>)
      else result)"

definition backtest ::
  "Backtester \<Rightarrow> string \<Rightarrow> string \<Rightarrow> DataFrame \<Rightarrow> DataFrame \<Rightarrow> error + BacktestResult" where
  "backtest bt symbol_v timeframe_v df df_4h =
     (let result = new_result symbol_v timeframe_v df
      in if length df < 3 then Inr result
         else
           (let result = hodl_benchmark bt df result
            in case backtest_loop bt symbol_v timeframe_v df df_4h [2 ..< length df] (result, None) of
                 Inl e \<Rightarrow> Inl e
               | Inr st \<Rightarrow>
                   (case force_close bt df df_4h st of
                      Inl e \<Rightarrow> Inl e
                    | Inr result \<Rightarrow> Inr (aggregate_statistics result))))"


section \<open>Concrete series\<close>

text \<open>A candle given by open time, open, high, low, close and close time.\<close>

definition mk_kline :: "int \<Rightarrow> real \<Rightarrow> real \<Rightarrow> real \<Rightarrow> real \<Rightarrow> int \<Rightarrow> Kline" where
  "mk_kline ts o_v h_v l_v c_v ct =
     \<lparr> timestamp = ts, open_price = o_v, high = h_v, low = l_v, close = c_v, volume = 1000,
       close_time = ct, quote_volume = 0, trades = 0, taker_buy_base_volume = 0,
       taker_buy_quote_volume = 0 \<rparr>"

text \<open>
  Two reference series that agree on the candles closed before time 9 and differ in the
  candle that is still open then.
\<close>

definition ref_series_a :: DataFrame where
  "ref_series_a = [mk_kline 0 1 1 1 10 3, mk_kline 4 1 1 1 12 7, mk_kline 8 1 1 1 500 11]"

definition ref_series_b :: DataFrame where
  "ref_series_b = [mk_kline 0 1 1 1 10 3, mk_kline 4 1 1 1 12 7, mk_kline 8 2 2 2 7 11]"


text \<open>Settings whose fee, take-profit and stop-loss defaults are zero.\<close>

definition zero_settings :: Settings where
  "zero_settings = settings\<lparr> settings_trade_fee_percent := 0,
       settings_take_profit_percent := 0, settings_stop_loss_percent := 0 \<rparr>"

text \<open>\<open>Backtester()\<close> under the default settings.\<close>

definition default_backtester :: Backtester where
  "default_backtester = Backtester_init settings None None None None"

text \<open>The open position of the P&L tests (app/tests/test_strategy.py).\<close>

definition test_position :: Position where
  "test_position =
     \<lparr> symbol = ''BTCUSDC'', timeframe = ''1h'', entry_time = 0, entry_price = 100.0,
       quantity = 1.0, pattern = HAMMER, entry_ema_short = 100.5, entry_ema_long = 99.5,
       exit_time = None, exit_price = None, exit_reason = None, exit_ema_short = None,
       exit_ema_long = None, pnl = 0, pnl_percent = 0, fees = 0, net_pnl = 0 \<rparr>"










text \<open>
  A backtester whose take-profit threshold lies below its stop-loss threshold, so that
  one return can meet both, and a trading series of three level candles at price 100.
\<close>

definition adversarial_backtester :: Backtester where
  "adversarial_backtester = Backtester_init settings None None (Some (- 0.1)) (Some 0.1)"

definition level_series :: DataFrame where
  "level_series = [mk_kline 0 100 100 100 100 3, mk_kline 4 100 100 100 100 7,
                   mk_kline 8 100 100 100 100 11]"


text \<open>
  A backtester with EMA periods 1 and 2, a falling reference series (short EMA below
  long EMA once both candles are closed), and a trading candle at price 99, opening at
  time 9.
\<close>

definition short_backtester :: Backtester where
  "short_backtester =
     Backtester_init (settings\<lparr>settings_ema_long_period := 2\<rparr>) None None None None"

definition falling_ref_series :: DataFrame where
  "falling_ref_series = [mk_kline 0 1 1 1 12 3, mk_kline 4 1 1 1 10 7]"

definition loss_candle :: Kline where
  "loss_candle = mk_kline 9 100 100 99 99 12"


text \<open>
  A trading series with a Hammer at index 2 (open time 9) followed by a rising candle,
  and the position that \<open>short_backtester\<close> opens at that Hammer against
  \<open>ref_series_a\<close>.
\<close>

definition trade_series :: DataFrame where
  "trade_series = [mk_kline 1 10 10 10 10 2, mk_kline 5 10 10 10 10 6,
                   mk_kline 9 10 10 0 10 10, mk_kline 10 10 10.4 10 10.2 11]"

definition entered_position :: Position where
  "entered_position =
     \<lparr> symbol = ''BTCUSDC'', timeframe = ''1h'', entry_time = 9, entry_price = 10,
       quantity = 10, pattern = HAMMER, entry_ema_short = 12, entry_ema_long = 34 / 3,
       exit_time = None, exit_price = None, exit_reason = None, exit_ema_short = None,
       exit_ema_long = None, pnl = 0, pnl_percent = 0, fees = 0, net_pnl = 0 \<rparr>"


section \<open>Predicates on run states\<close>

text \<open>
  The positions of a run state that are open (no exit time): among the recorded
  positions and the held one.
\<close>

definition open_positions :: "run_state \<Rightarrow> Position list" where
  "open_positions st =
     filter (\<lambda>p. exit_time p = None)
       (positions (fst st) @ (case snd st of None \<Rightarrow> [] | Some p \<Rightarrow> [p]))"

text \<open>
  Every recorded position was closed by an exit rule of the loop, the held position is
  open, and \<open>total_trades\<close> counts the recorded positions.
\<close>

definition closed_invariant :: "run_state \<Rightarrow> bool" where
  "closed_invariant st \<longleftrightarrow>
     (\<forall>p \<in> set (positions (fst st)).
        exit_time p \<noteq> None \<and> exit_reason p \<noteq> None \<and> exit_reason p \<noteq> Some FORCED_CLOSE)
     \<and> (\<forall>p. snd st = Some p \<longrightarrow> exit_time p = None)
     \<and> total_trades (fst st) = int (length (positions (fst st)))"


text \<open>
  The position \<open>p\<close> carries the entry data of the candle at index \<open>i\<close> of the
  trading series: entry time and price of that candle, quantity \<open>trade_amount /
  price\<close>, the bullish pattern detected at \<open>i\<close>, and the EMA pair queried at that
  candle's timestamp, both values present and short above long.
\<close>

definition entered_at :: "Backtester \<Rightarrow> DataFrame \<Rightarrow> DataFrame \<Rightarrow> nat \<Rightarrow> Position \<Rightarrow> bool" where
  "entered_at bt df df_4h i p \<longleftrightarrow>
     entry_time p = timestamp (df ! i)
     \<and> entry_price p = close (df ! i)
     \<and> quantity p = trade_amount bt / close (df ! i)
     \<and> detect_patterns df (int i) = Some (pattern p)
     \<and> pattern p \<in> {HAMMER, BULLISH_ENGULFING, MORNING_STAR}
     \<and> get_ema_at_timestamp df_4h (timestamp (df ! i)) (ema_short_period bt) (ema_long_period bt)
         = Inr (Some (entry_ema_short p), Some (entry_ema_long p))
     \<and> entry_ema_short p > entry_ema_long p"

text \<open>Every recorded position and the held one were entered at a candle of the loop.\<close>

definition entry_invariant :: "Backtester \<Rightarrow> DataFrame \<Rightarrow> DataFrame \<Rightarrow> run_state \<Rightarrow> bool" where
  "entry_invariant bt df df_4h st \<longleftrightarrow>
     (\<forall>p \<in> set (positions (fst st)). \<exists>i \<in> {2 ..< length df}. entered_at bt df df_4h i p)
     \<and> (\<forall>p. snd st = Some p \<longrightarrow> (\<exists>i \<in> {2 ..< length df}. entered_at bt df df_4h i p))"


section \<open>The trend filter looks at completed candles only\<close>

lemma filter_complete_candles_eq:
  "filter_complete_candles df t = filter (\<lambda>c. close_time c < t) df"
  by (simp add: filter_complete_candles_def)

lemma get_ema_at_timestamp_completed:
  "get_ema_at_timestamp df t sp lp =
     (let completed = filter (\<lambda>c. close_time c < t) df in
      if int (length completed) < max sp lp \<or> completed = [] then Inr (None, None)
      else (case calculate_ema (map close completed) sp of
              Inl e \<Rightarrow> Inl e
            | Inr es \<Rightarrow> (case calculate_ema (map close completed) lp of
                 Inl e \<Rightarrow> Inl e
               | Inr el \<Rightarrow> Inr (if es = [] then None else Some (last es),
                                if el = [] then None else Some (last el)))))"
  by (auto simp add: get_ema_at_timestamp_def filter_complete_candles_eq Let_def
      split: sum.splits)

text \<open>
  Claim C1.  The pair returned by \<open>get_ema_at_timestamp\<close> is a function of the candles
  whose \<open>close_time\<close> is strictly less than the target time: two reference series with
  the same completed candles give the same result (values, absence and exception
  alike), whatever their candles with \<open>close_time \<ge> target\<close> are.
\<close>

theorem get_ema_at_timestamp_no_look_ahead:
  assumes "filter (\<lambda>c. close_time c < t) df1 = filter (\<lambda>c. close_time c < t) df2"
  shows "get_ema_at_timestamp df1 t sp lp = get_ema_at_timestamp df2 t sp lp"
  using assms by (simp add: get_ema_at_timestamp_completed)

theorem get_ema_at_timestamp_no_look_ahead_witness:
  "filter (\<lambda>c. close_time c < 9) ref_series_a = filter (\<lambda>c. close_time c < 9) ref_series_b
   \<and> ref_series_a \<noteq> ref_series_b
   \<and> get_ema_at_timestamp ref_series_a 9 1 2 = get_ema_at_timestamp ref_series_b 9 1 2
   \<and> get_ema_at_timestamp ref_series_b 9 1 2 = Inr (Some 12, Some (34 / 3))"
proof -
  have h: "filter (\<lambda>c. close_time c < 9) ref_series_a
           = filter (\<lambda>c. close_time c < 9) ref_series_b"
    by (simp add: ref_series_a_def ref_series_b_def mk_kline_def)
  have d: "ref_series_a \<noteq> ref_series_b"
    by (simp add: ref_series_a_def ref_series_b_def mk_kline_def)
  have v: "get_ema_at_timestamp ref_series_b 9 1 2 = Inr (Some 12, Some (34 / 3))"
    by (simp add: get_ema_at_timestamp_completed ref_series_b_def mk_kline_def
        calculate_ema_def)
  from h d v get_ema_at_timestamp_no_look_ahead [OF h, of 1 2] show ?thesis
    by simp
qed


section \<open>Insufficient history\<close>

text \<open>
  Claim C8.  With fewer than three candles in the trading series \<open>backtest\<close> returns,
  without an exception, the result it created at the start, which has no positions and
  zero trades; and when fewer than \<open>max short_period long_period\<close> reference candles
  have closed strictly before the query time, \<open>get_ema_at_timestamp\<close> returns
  (None, None) without an exception.
\<close>

theorem insufficient_history_degrades:
  "(length df < 3 \<longrightarrow>
      backtest bt symbol_v timeframe_v df df_4h = Inr (new_result symbol_v timeframe_v df)
      \<and> positions (new_result symbol_v timeframe_v df) = []
      \<and> total_trades (new_result symbol_v timeframe_v df) = 0)
   \<and> (int (length (filter (\<lambda>c. close_time c < t) df_4h)) < max sp lp \<longrightarrow>
      get_ema_at_timestamp df_4h t sp lp = Inr (None, None))"
  by (simp add: backtest_def new_result_def get_ema_at_timestamp_completed)

theorem insufficient_history_degrades_witness:
  "length (take 2 ref_series_a) < 3
   \<and> (\<exists>r. backtest (Backtester_init settings None None None None) ''BTCUSDC'' ''1h''
             (take 2 ref_series_a) ref_series_a = Inr r
           \<and> positions r = [] \<and> total_trades r = 0)
   \<and> int (length (filter (\<lambda>c. close_time c < 9) ref_series_a)) < max 1 99
   \<and> get_ema_at_timestamp ref_series_a 9 1 99 = Inr (None, None)"
proof -
  have h1: "length (take 2 ref_series_a) < 3"
    by (simp add: ref_series_a_def)
  have h2: "int (length (filter (\<lambda>c. close_time c < 9) ref_series_a)) < max 1 99"
    by (simp add: ref_series_a_def mk_kline_def)
  from h1 h2
    insufficient_history_degrades [of "take 2 ref_series_a"
      "Backtester_init settings None None None None" "''BTCUSDC''" "''1h''" ref_series_a
      9 1 99]
  show ?thesis by blast
qed


section \<open>Constructor arguments\<close>

lemma default_backtester_fields:
  "trade_amount default_backtester = 100" "fee_percent default_backtester = 0.001"
  "take_profit default_backtester = 0.08" "stop_loss default_backtester = - 0.06"
  "ema_short_period default_backtester = 1" "ema_long_period default_backtester = 99"
  by (simp_all add: default_backtester_def Backtester_init_def py_or_def settings_def)

text \<open>
  Claim C10.  In \<open>Backtester.__init__\<close> the argument value 0 for \<open>trade_amount\<close>,
  \<open>fee_percent\<close>, \<open>take_profit\<close> or \<open>stop_loss\<close> gives the same backtester as not
  passing the argument: the field takes the default of the settings.  Hence a fee,
  take-profit or stop-loss of the backtester is zero only when the default of the
  settings is zero.
\<close>

theorem Backtester_init_zero_is_default:
  "Backtester_init st (Some 0) fa tp sl = Backtester_init st None fa tp sl
   \<and> Backtester_init st ta (Some 0) tp sl = Backtester_init st ta None tp sl
   \<and> Backtester_init st ta fa (Some 0) sl = Backtester_init st ta fa None sl
   \<and> Backtester_init st ta fa tp (Some 0) = Backtester_init st ta fa tp None
   \<and> trade_amount (Backtester_init st None fa tp sl) = settings_trade_amount st
   \<and> fee_percent (Backtester_init st ta None tp sl) = settings_trade_fee_percent st
   \<and> take_profit (Backtester_init st ta fa None sl) = settings_take_profit_percent st
   \<and> stop_loss (Backtester_init st ta fa tp None) = settings_stop_loss_percent st
   \<and> (fee_percent (Backtester_init st ta fa tp sl) = 0 \<longrightarrow> settings_trade_fee_percent st = 0)
   \<and> (take_profit (Backtester_init st ta fa tp sl) = 0 \<longrightarrow> settings_take_profit_percent st = 0)
   \<and> (stop_loss (Backtester_init st ta fa tp sl) = 0 \<longrightarrow> settings_stop_loss_percent st = 0)"
  by (simp add: Backtester_init_def py_or_def split: option.splits)

theorem Backtester_init_zero_is_default_witness:
  "fee_percent (Backtester_init zero_settings None (Some 0) (Some 0) (Some 0)) = 0
   \<and> take_profit (Backtester_init zero_settings None (Some 0) (Some 0) (Some 0)) = 0
   \<and> stop_loss (Backtester_init zero_settings None (Some 0) (Some 0) (Some 0)) = 0
   \<and> settings_trade_fee_percent zero_settings = 0
   \<and> settings_take_profit_percent zero_settings = 0
   \<and> settings_stop_loss_percent zero_settings = 0
   \<and> Backtester_init zero_settings (Some 0) (Some 0) (Some 0) (Some 0)
       = Backtester_init zero_settings None (Some 0) (Some 0) (Some 0)"
proof -
  have h: "fee_percent (Backtester_init zero_settings None (Some 0) (Some 0) (Some 0)) = 0
     \<and> take_profit (Backtester_init zero_settings None (Some 0) (Some 0) (Some 0)) = 0
     \<and> stop_loss (Backtester_init zero_settings None (Some 0) (Some 0) (Some 0)) = 0"
    by (simp add: Backtester_init_def py_or_def zero_settings_def)
  from h
    Backtester_init_zero_is_default [where st = zero_settings and ta = None
      and fa = "Some 0" and tp = "Some 0" and sl = "Some 0"]
  show ?thesis by blast
qed


section \<open>Profit and loss of a closed position\<close>

lemma calculate_pnl_fields:
  assumes "exit_price pos = None \<or> exit_price pos = Some e"
  shows "exit_price (calculate_pnl pos e f) = Some e"
    and "pnl (calculate_pnl pos e f) = (e - entry_price pos) * quantity pos"
    and "fees (calculate_pnl pos e f) = entry_price pos * quantity pos * f + e * quantity pos * f"
    and "net_pnl (calculate_pnl pos e f) = pnl (calculate_pnl pos e f) - fees (calculate_pnl pos e f)"
    and "pnl_percent (calculate_pnl pos e f) = (e - entry_price pos) / entry_price pos"
  using assms by (auto simp add: calculate_pnl_def Let_def)

lemma record_exit_Inr:
  assumes "record_exit bt df_4h result pos ts e reason = Inr result'"
  obtains es el where
    "get_ema_at_timestamp df_4h ts (ema_short_period bt) (ema_long_period bt) = Inr (es, el)"
    "positions result' = positions result
        @ [calculate_pnl (pos\<lparr>exit_time := Some ts, exit_price := Some e,
             exit_reason := Some reason, exit_ema_short := es, exit_ema_long := el\<rparr>)
             e (fee_percent bt)]"
    "total_trades result' = total_trades result + 1"
    "winning_trades result' = winning_trades result +
       (if net_pnl (calculate_pnl (pos\<lparr>exit_time := Some ts, exit_price := Some e,
             exit_reason := Some reason, exit_ema_short := es, exit_ema_long := el\<rparr>)
             e (fee_percent bt)) > 0 then 1 else 0)"
    "losing_trades result' = losing_trades result +
       (if net_pnl (calculate_pnl (pos\<lparr>exit_time := Some ts, exit_price := Some e,
             exit_reason := Some reason, exit_ema_short := es, exit_ema_long := el\<rparr>)
             e (fee_percent bt)) > 0 then 0 else 1)"
    "ema_filter_blocked result' = ema_filter_blocked result"
    "patterns_detected result' = patterns_detected result"
  using assms
  by (auto simp add: record_exit_def Let_def split: sum.splits prod.splits if_splits)


text \<open>
  Claim C7.  For a position with entry price \<open>p > 0\<close> and quantity \<open>q\<close>, closed at
  exit price \<open>e\<close> with fee fraction \<open>f\<close>: \<open>calculate_pnl\<close> (on a position whose
  exit price is not yet set, or is already \<open>e\<close>, as in \<open>backtest\<close>) sets
  \<open>pnl = (e - p) * q\<close>, \<open>fees = p * q * f + e * q * f\<close>, \<open>net_pnl = pnl - fees\<close>
  and \<open>pnl_percent = (e - p) / p\<close>; the exit block of \<open>backtest\<close> appends exactly
  that position and counts it as winning iff \<open>net_pnl > 0\<close>, as losing otherwise; and
  entry price 100, quantity 1, exit price 100.9, fee 0.001 give pnl 0.9, fees 0.2009
  and net_pnl 0.6991.
\<close>

theorem pnl_postcondition:
  assumes "0 < entry_price pos"
  shows "(exit_price pos = None \<or> exit_price pos = Some e \<longrightarrow>
            exit_price (calculate_pnl pos e f) = Some e
            \<and> pnl (calculate_pnl pos e f) = (e - entry_price pos) * quantity pos
            \<and> fees (calculate_pnl pos e f)
                = entry_price pos * quantity pos * f + e * quantity pos * f
            \<and> net_pnl (calculate_pnl pos e f)
                = pnl (calculate_pnl pos e f) - fees (calculate_pnl pos e f)
            \<and> pnl_percent (calculate_pnl pos e f) = (e - entry_price pos) / entry_price pos)
       \<and> (\<forall>result'. record_exit bt df_4h result pos ts e reason = Inr result' \<longrightarrow>
            (\<exists>p. positions result' = positions result @ [p]
               \<and> entry_price p = entry_price pos \<and> quantity p = quantity pos
               \<and> exit_price p = Some e
               \<and> pnl p = (e - entry_price pos) * quantity pos
               \<and> fees p = entry_price pos * quantity pos * fee_percent bt
                          + e * quantity pos * fee_percent bt
               \<and> net_pnl p = pnl p - fees p
               \<and> pnl_percent p = (e - entry_price pos) / entry_price pos
               \<and> winning_trades result'
                   = winning_trades result + (if net_pnl p > 0 then 1 else 0)
               \<and> losing_trades result'
                   = losing_trades result + (if net_pnl p > 0 then 0 else 1)))
       \<and> (entry_price pos = 100 \<and> quantity pos = 1 \<and> exit_price pos = None \<longrightarrow>
            pnl (calculate_pnl pos 100.9 0.001) = 0.9
            \<and> fees (calculate_pnl pos 100.9 0.001) = 0.2009
            \<and> net_pnl (calculate_pnl pos 100.9 0.001) = 0.6991)"
proof (intro conjI impI allI)
  fix result'
  assume r: "record_exit bt df_4h result pos ts e reason = Inr result'"
  from r obtain es el where
    p: "positions result' = positions result
        @ [calculate_pnl (pos\<lparr>exit_time := Some ts, exit_price := Some e,
             exit_reason := Some reason, exit_ema_short := es, exit_ema_long := el\<rparr>)
             e (fee_percent bt)]"
    and w: "winning_trades result' = winning_trades result +
       (if net_pnl (calculate_pnl (pos\<lparr>exit_time := Some ts, exit_price := Some e,
             exit_reason := Some reason, exit_ema_short := es, exit_ema_long := el\<rparr>)
             e (fee_percent bt)) > 0 then 1 else 0)"
    and l: "losing_trades result' = losing_trades result +
       (if net_pnl (calculate_pnl (pos\<lparr>exit_time := Some ts, exit_price := Some e,
             exit_reason := Some reason, exit_ema_short := es, exit_ema_long := el\<rparr>)
             e (fee_percent bt)) > 0 then 0 else 1)"
    by (rule record_exit_Inr)
  let ?q = "pos\<lparr>exit_time := Some ts, exit_price := Some e,
             exit_reason := Some reason, exit_ema_short := es, exit_ema_long := el\<rparr>"
  have q: "exit_price ?q = None \<or> exit_price ?q = Some e" by simp
  have e1: "entry_price (calculate_pnl ?q e (fee_percent bt)) = entry_price pos"
    and e2: "quantity (calculate_pnl ?q e (fee_percent bt)) = quantity pos"
    by (simp_all add: calculate_pnl_def Let_def)
  show "\<exists>p. positions result' = positions result @ [p]
               \<and> entry_price p = entry_price pos \<and> quantity p = quantity pos
               \<and> exit_price p = Some e
               \<and> pnl p = (e - entry_price pos) * quantity pos
               \<and> fees p = entry_price pos * quantity pos * fee_percent bt
                          + e * quantity pos * fee_percent bt
               \<and> net_pnl p = pnl p - fees p
               \<and> pnl_percent p = (e - entry_price pos) / entry_price pos
               \<and> winning_trades result'
                   = winning_trades result + (if net_pnl p > 0 then 1 else 0)
               \<and> losing_trades result'
                   = losing_trades result + (if net_pnl p > 0 then 0 else 1)"
    apply (rule exI [where x = "calculate_pnl ?q e (fee_percent bt)"])
    using p w l e1 e2 calculate_pnl_fields [OF q, of "fee_percent bt"]
    by simp
qed (auto simp add: calculate_pnl_def Let_def)


theorem pnl_postcondition_witness:
  "0 < entry_price test_position
   \<and> exit_price test_position = None
   \<and> (\<exists>r p. record_exit default_backtester [] (new_result ''BTCUSDC'' ''1h'' [])
                test_position 5 100.9 TAKE_PROFIT = Inr r
            \<and> positions r = [p] \<and> pnl p = 0.9 \<and> fees p = 0.2009 \<and> net_pnl p = 0.6991
            \<and> winning_trades r = 1 \<and> losing_trades r = 0)"
proof -
  have h: "0 < entry_price test_position"
    and x: "exit_price test_position = None"
    and v: "entry_price test_position = 100" "quantity test_position = 1"
    by (simp_all add: test_position_def)
  obtain r where r: "record_exit default_backtester [] (new_result ''BTCUSDC'' ''1h'' [])
                test_position 5 100.9 TAKE_PROFIT = Inr r"
    by (auto simp add: record_exit_def get_ema_at_timestamp_def Let_def)
  have n: "positions (new_result ''BTCUSDC'' ''1h'' []) = []"
    "winning_trades (new_result ''BTCUSDC'' ''1h'' []) = 0"
    "losing_trades (new_result ''BTCUSDC'' ''1h'' []) = 0"
    by (simp_all add: new_result_def)
  from pnl_postcondition [OF h, of "100.9" "0.001" default_backtester "[]"
      "new_result ''BTCUSDC'' ''1h'' []" 5 TAKE_PROFIT] r
  obtain p where p: "positions r = positions (new_result ''BTCUSDC'' ''1h'' []) @ [p]"
    "pnl p = (100.9 - entry_price test_position) * quantity test_position"
    "fees p = entry_price test_position * quantity test_position * fee_percent default_backtester
               + 100.9 * quantity test_position * fee_percent default_backtester"
    "net_pnl p = pnl p - fees p"
    "winning_trades r = winning_trades (new_result ''BTCUSDC'' ''1h'' [])
         + (if net_pnl p > 0 then 1 else 0)"
    "losing_trades r = losing_trades (new_result ''BTCUSDC'' ''1h'' [])
         + (if net_pnl p > 0 then 0 else 1)"
    by blast
  have c: "positions r = [p]" "pnl p = 0.9" "fees p = 0.2009" "net_pnl p = 0.6991"
    using p n v by (simp_all add: default_backtester_fields)
  have w: "winning_trades r = 1" "losing_trades r = 0"
    using p(5,6) n c(4) by simp_all
  from c w h x r show ?thesis by blast
qed


section \<open>Pattern detection\<close>

lemmas detect_defs =
  detect_hammer_def detect_shooting_star_def detect_doji_def detect_bullish_engulfing_def
  detect_bearish_engulfing_def detect_morning_star_def detect_evening_star_def











section \<open>Merging series\<close>



















section \<open>The loop body: exits\<close>

lemma record_exit_returns:
  assumes "get_ema_at_timestamp df_4h ts (ema_short_period bt) (ema_long_period bt) = Inr (es, el)"
  shows "\<exists>result'. record_exit bt df_4h result pos ts e reason = Inr result'"
  using assms by (simp add: record_exit_def Let_def)

lemma record_exit_raises:
  assumes "get_ema_at_timestamp df_4h ts (ema_short_period bt) (ema_long_period bt) = Inl err"
  shows "record_exit bt df_4h result pos ts e reason = Inl err"
  using assms by (simp add: record_exit_def Let_def)

lemma calculate_pnl_unchanged:
  "symbol (calculate_pnl pos e f) = symbol pos"
  "timeframe (calculate_pnl pos e f) = timeframe pos"
  "entry_time (calculate_pnl pos e f) = entry_time pos"
  "entry_price (calculate_pnl pos e f) = entry_price pos"
  "quantity (calculate_pnl pos e f) = quantity pos"
  "pattern (calculate_pnl pos e f) = pattern pos"
  "entry_ema_short (calculate_pnl pos e f) = entry_ema_short pos"
  "entry_ema_long (calculate_pnl pos e f) = entry_ema_long pos"
  "exit_time (calculate_pnl pos e f) = exit_time pos"
  "exit_reason (calculate_pnl pos e f) = exit_reason pos"
  "exit_ema_short (calculate_pnl pos e f) = exit_ema_short pos"
  "exit_ema_long (calculate_pnl pos e f) = exit_ema_long pos"
  by (simp_all add: calculate_pnl_def Let_def)

text \<open>The position that the exit block appends.\<close>

lemma record_exit_appends:
  assumes "record_exit bt df_4h result pos ts e reason = Inr result'"
  shows "\<exists>p. positions result' = positions result @ [p]
           \<and> exit_time p = Some ts \<and> exit_price p = Some e \<and> exit_reason p = Some reason
           \<and> symbol p = symbol pos \<and> timeframe p = timeframe pos
           \<and> entry_time p = entry_time pos \<and> entry_price p = entry_price pos
           \<and> quantity p = quantity pos \<and> pattern p = pattern pos
           \<and> entry_ema_short p = entry_ema_short pos \<and> entry_ema_long p = entry_ema_long pos"
proof -
  from assms obtain es el where
    p: "positions result' = positions result
        @ [calculate_pnl (pos\<lparr>exit_time := Some ts, exit_price := Some e,
             exit_reason := Some reason, exit_ema_short := es, exit_ema_long := el\<rparr>)
             e (fee_percent bt)]"
    by (rule record_exit_Inr)
  let ?q = "pos\<lparr>exit_time := Some ts, exit_price := Some e,
             exit_reason := Some reason, exit_ema_short := es, exit_ema_long := el\<rparr>"
  have "exit_price ?q = None \<or> exit_price ?q = Some e" by simp
  then have "exit_price (calculate_pnl ?q e (fee_percent bt)) = Some e"
    by (rule calculate_pnl_fields)
  with p show ?thesis
    by (simp add: calculate_pnl_unchanged)
qed

lemma check_entry_positions:
  assumes "check_entry bt symbol_v timeframe_v df_4h candle pattern_v (result, cur) = Inr (result', cur')"
  shows "positions result' = positions result" and "total_trades result' = total_trades result"
  using assms
  by (auto simp add: check_entry_def Let_def split: if_splits sum.splits prod.splits)

lemma check_entry_returns:
  assumes "get_ema_at_timestamp df_4h (timestamp candle) (ema_short_period bt) (ema_long_period bt)
             = Inr (es, el)"
  shows "\<exists>st'. check_entry bt symbol_v timeframe_v df_4h candle pattern_v st = Inr st'"
  using assms by (cases st) (simp add: check_entry_def Let_def)

lemma check_exit_take_profit:
  assumes "(close candle - entry_price pos) / entry_price pos \<ge> take_profit bt"
  shows "check_exit bt df_4h candle pos = Inr (Some TAKE_PROFIT, entry_price pos * (1 + take_profit bt))"
  using assms by (simp add: check_exit_def Let_def)

lemma check_exit_stop_loss:
  assumes "\<not> (close candle - entry_price pos) / entry_price pos \<ge> take_profit bt"
    and "(close candle - entry_price pos) / entry_price pos \<le> stop_loss bt"
  shows "check_exit bt df_4h candle pos = Inr (Some STOP_LOSS, entry_price pos * (1 + stop_loss bt))"
  using assms by (simp add: check_exit_def Let_def)

lemma check_exit_ema_bearish:
  assumes "\<not> (close candle - entry_price pos) / entry_price pos \<ge> take_profit bt"
    and "\<not> (close candle - entry_price pos) / entry_price pos \<le> stop_loss bt"
    and "(close candle - entry_price pos) / entry_price pos < 0"
    and "get_ema_at_timestamp df_4h (timestamp candle) (ema_short_period bt) (ema_long_period bt)
           = Inr (Some es, Some el)"
    and "es < el"
  shows "check_exit bt df_4h candle pos = Inr (Some EMA_BEARISH, close candle)"
  using assms by (simp add: check_exit_def Let_def)

lemma check_exit_hold:
  assumes "\<not> (close candle - entry_price pos) / entry_price pos \<ge> take_profit bt"
    and "\<not> (close candle - entry_price pos) / entry_price pos \<le> stop_loss bt"
    and "get_ema_at_timestamp df_4h (timestamp candle) (ema_short_period bt) (ema_long_period bt)
           = Inr (es, el)"
    and "\<not> (close candle - entry_price pos) / entry_price pos < 0
         \<or> es = None \<or> el = None \<or> \<not> the es < the el"
  shows "check_exit bt df_4h candle pos = Inr (None, close candle)"
  using assms by (auto simp add: check_exit_def Let_def)

text \<open>The step with an open position whose exit check gives a reason.\<close>

lemma backtest_step_exit:
  assumes c: "check_exit bt df_4h (df ! i) pos = Inr (Some reason, e)"
    and g: "get_ema_at_timestamp df_4h (timestamp (df ! i)) (ema_short_period bt)
              (ema_long_period bt) = Inr (es, el)"
  shows "\<exists>result' cur' p.
           backtest_step bt symbol_v timeframe_v df df_4h i (result, Some pos) = Inr (result', cur')
           \<and> positions result' = positions result @ [p]
           \<and> exit_time p = Some (timestamp (df ! i)) \<and> exit_price p = Some e
           \<and> exit_reason p = Some reason
           \<and> entry_time p = entry_time pos \<and> entry_price p = entry_price pos
           \<and> quantity p = quantity pos"
proof -
  let ?r = "if detect_patterns df (int i) \<noteq> None
            then result\<lparr>patterns_detected := patterns_detected result + 1\<rparr> else result"
  from record_exit_returns [OF g] obtain r1 where
    r1: "record_exit bt df_4h ?r pos (timestamp (df ! i)) e reason = Inr r1"
    by blast
  from record_exit_appends [OF r1] obtain p where
    p: "positions r1 = positions ?r @ [p]" "exit_time p = Some (timestamp (df ! i))"
       "exit_price p = Some e" "exit_reason p = Some reason"
       "entry_time p = entry_time pos" "entry_price p = entry_price pos"
       "quantity p = quantity pos"
    by blast
  from check_entry_returns [OF g] obtain st' where
    st: "check_entry bt symbol_v timeframe_v df_4h (df ! i) (detect_patterns df (int i)) (r1, None)
           = Inr st'"
    by blast
  obtain r2 c2 where st': "st' = (r2, c2)" by (cases st')
  from st st' check_entry_positions(1) have "positions r2 = positions r1" by blast
  moreover have "backtest_step bt symbol_v timeframe_v df df_4h i (result, Some pos) = Inr (r2, c2)"
    using c r1 st st' by (simp add: backtest_step_def handle_open_position_def Let_def)
  ultimately show ?thesis using p by auto
qed


lemma adversarial_backtester_fields:
  "take_profit adversarial_backtester = - 0.1" "stop_loss adversarial_backtester = 0.1"
  "ema_short_period adversarial_backtester = 1" "ema_long_period adversarial_backtester = 99"
  "trade_amount adversarial_backtester = 100" "fee_percent adversarial_backtester = 0.001"
  by (simp_all add: adversarial_backtester_def Backtester_init_def py_or_def settings_def)

text \<open>
  Claim C2.  With an open position and \<open>r = (close - entry_price) / entry_price\<close>,
  the exit checks run in the order take-profit, stop-loss, EMA-bearish: \<open>r \<ge>
  take_profit\<close> gives Take Profit at \<open>entry_price * (1 + take_profit)\<close>; otherwise
  \<open>r \<le> stop_loss\<close> gives Stop Loss at \<open>entry_price * (1 + stop_loss)\<close>; otherwise a
  loss with short EMA below long EMA gives the EMA exit at the candle close.  When
  \<open>r\<close> meets both the take-profit and the stop-loss threshold, the loop body (the
  EMA query at the candle's timestamp returning) appends the position closed with
  reason Take Profit at the price \<open>entry_price * (1 + take_profit)\<close>.
\<close>

theorem exit_precedence:
  "(let r = (close (df ! i) - entry_price pos) / entry_price pos;
        ema = get_ema_at_timestamp df_4h (timestamp (df ! i)) (ema_short_period bt)
                (ema_long_period bt)
    in (r \<ge> take_profit bt \<longrightarrow>
          check_exit bt df_4h (df ! i) pos
            = Inr (Some TAKE_PROFIT, entry_price pos * (1 + take_profit bt)))
     \<and> (\<not> r \<ge> take_profit bt \<and> r \<le> stop_loss bt \<longrightarrow>
          check_exit bt df_4h (df ! i) pos
            = Inr (Some STOP_LOSS, entry_price pos * (1 + stop_loss bt)))
     \<and> (\<not> r \<ge> take_profit bt \<and> \<not> r \<le> stop_loss bt \<and> r < 0
          \<and> (\<exists>es el. ema = Inr (Some es, Some el) \<and> es < el) \<longrightarrow>
          check_exit bt df_4h (df ! i) pos = Inr (Some EMA_BEARISH, close (df ! i)))
     \<and> (r \<ge> take_profit bt \<and> r \<le> stop_loss bt \<and> (\<exists>es el. ema = Inr (es, el)) \<longrightarrow>
          (\<exists>result' cur' p.
             backtest_step bt symbol_v timeframe_v df df_4h i (result, Some pos)
               = Inr (result', cur')
             \<and> positions result' = positions result @ [p]
             \<and> exit_reason p = Some TAKE_PROFIT
             \<and> exit_price p = Some (entry_price pos * (1 + take_profit bt))
             \<and> exit_time p = Some (timestamp (df ! i))
             \<and> entry_time p = entry_time pos \<and> entry_price p = entry_price pos)))"
  unfolding Let_def
proof (intro conjI impI)
  assume "take_profit bt \<le> (close (df ! i) - entry_price pos) / entry_price pos"
  then show "check_exit bt df_4h (df ! i) pos
            = Inr (Some TAKE_PROFIT, entry_price pos * (1 + take_profit bt))"
    by (rule check_exit_take_profit)
next
  assume "\<not> take_profit bt \<le> (close (df ! i) - entry_price pos) / entry_price pos
          \<and> (close (df ! i) - entry_price pos) / entry_price pos \<le> stop_loss bt"
  then show "check_exit bt df_4h (df ! i) pos
            = Inr (Some STOP_LOSS, entry_price pos * (1 + stop_loss bt))"
    by (simp add: check_exit_stop_loss)
next
  assume "\<not> take_profit bt \<le> (close (df ! i) - entry_price pos) / entry_price pos
          \<and> \<not> (close (df ! i) - entry_price pos) / entry_price pos \<le> stop_loss bt
          \<and> (close (df ! i) - entry_price pos) / entry_price pos < 0
          \<and> (\<exists>es el. get_ema_at_timestamp df_4h (timestamp (df ! i)) (ema_short_period bt)
                (ema_long_period bt) = Inr (Some es, Some el) \<and> es < el)"
  then show "check_exit bt df_4h (df ! i) pos = Inr (Some EMA_BEARISH, close (df ! i))"
    by (auto simp add: check_exit_ema_bearish)
next
  assume a: "take_profit bt \<le> (close (df ! i) - entry_price pos) / entry_price pos
          \<and> (close (df ! i) - entry_price pos) / entry_price pos \<le> stop_loss bt
          \<and> (\<exists>es el. get_ema_at_timestamp df_4h (timestamp (df ! i)) (ema_short_period bt)
                (ema_long_period bt) = Inr (es, el))"
  then obtain es el where g: "get_ema_at_timestamp df_4h (timestamp (df ! i))
       (ema_short_period bt) (ema_long_period bt) = Inr (es, el)"
    by blast
  from a have c: "check_exit bt df_4h (df ! i) pos
            = Inr (Some TAKE_PROFIT, entry_price pos * (1 + take_profit bt))"
    by (simp add: check_exit_take_profit)
  from backtest_step_exit [OF c g, of symbol_v timeframe_v result]
  show "\<exists>result' cur' p.
             backtest_step bt symbol_v timeframe_v df df_4h i (result, Some pos)
               = Inr (result', cur')
             \<and> positions result' = positions result @ [p]
             \<and> exit_reason p = Some TAKE_PROFIT
             \<and> exit_price p = Some (entry_price pos * (1 + take_profit bt))
             \<and> exit_time p = Some (timestamp (df ! i))
             \<and> entry_time p = entry_time pos \<and> entry_price p = entry_price pos"
    by blast
qed

theorem exit_precedence_witness:
  "take_profit adversarial_backtester
      \<le> (close (level_series ! 2) - entry_price test_position) / entry_price test_position
   \<and> (close (level_series ! 2) - entry_price test_position) / entry_price test_position
      \<le> stop_loss adversarial_backtester
   \<and> (\<exists>result' cur' p.
         backtest_step adversarial_backtester ''BTCUSDC'' ''1h'' level_series [] 2
           (new_result ''BTCUSDC'' ''1h'' level_series, Some test_position) = Inr (result', cur')
         \<and> positions result' = [p]
         \<and> exit_reason p = Some TAKE_PROFIT \<and> exit_price p = Some 90
         \<and> close (level_series ! 2) = 100)"
proof -
  have c: "close (level_series ! 2) = 100" "timestamp (level_series ! 2) = 8"
    by (simp_all add: level_series_def mk_kline_def)
  have e: "entry_price test_position = 100"
    by (simp add: test_position_def)
  have g: "\<exists>es el. get_ema_at_timestamp [] (timestamp (level_series ! 2))
             (ema_short_period adversarial_backtester) (ema_long_period adversarial_backtester)
              = Inr (es, el)"
    by (simp add: get_ema_at_timestamp_def)
  have n: "positions (new_result ''BTCUSDC'' ''1h'' level_series) = []"
    by (simp add: new_result_def)
  have h: "take_profit adversarial_backtester
      \<le> (close (level_series ! 2) - entry_price test_position) / entry_price test_position
   \<and> (close (level_series ! 2) - entry_price test_position) / entry_price test_position
      \<le> stop_loss adversarial_backtester"
    by (simp add: c e adversarial_backtester_fields)
  from exit_precedence [where df = level_series and i = 2 and pos = test_position
      and bt = adversarial_backtester and df_4h = "[]" and symbol_v = "''BTCUSDC''"
      and timeframe_v = "''1h''" and result = "new_result ''BTCUSDC'' ''1h'' level_series"]
    h g
  obtain result' cur' p where
    "backtest_step adversarial_backtester ''BTCUSDC'' ''1h'' level_series [] 2
           (new_result ''BTCUSDC'' ''1h'' level_series, Some test_position) = Inr (result', cur')"
    "positions result' = positions (new_result ''BTCUSDC'' ''1h'' level_series) @ [p]"
    "exit_reason p = Some TAKE_PROFIT"
    "exit_price p = Some (entry_price test_position * (1 + take_profit adversarial_backtester))"
    unfolding Let_def by blast
  then have "backtest_step adversarial_backtester ''BTCUSDC'' ''1h'' level_series [] 2
           (new_result ''BTCUSDC'' ''1h'' level_series, Some test_position) = Inr (result', cur')
         \<and> positions result' = [p]
         \<and> exit_reason p = Some TAKE_PROFIT \<and> exit_price p = Some 90"
    by (simp add: n e adversarial_backtester_fields)
  with h c show ?thesis by blast
qed


section \<open>Absent EMA values\<close>

lemma handle_open_position_counter:
  assumes "handle_open_position bt df_4h candle (result, cur) = Inr (result', cur')"
  shows "ema_filter_blocked result' = ema_filter_blocked result"
    and "patterns_detected result' = patterns_detected result"
proof -
  show "ema_filter_blocked result' = ema_filter_blocked result"
    using assms
    by (auto simp add: handle_open_position_def split: option.splits sum.splits prod.splits
        elim: record_exit_Inr)
  show "patterns_detected result' = patterns_detected result"
    using assms
    by (auto simp add: handle_open_position_def split: option.splits sum.splits prod.splits
        elim: record_exit_Inr)
qed

lemma short_backtester_fields:
  "trade_amount short_backtester = 100" "fee_percent short_backtester = 0.001"
  "take_profit short_backtester = 0.08" "stop_loss short_backtester = - 0.06"
  "ema_short_period short_backtester = 1" "ema_long_period short_backtester = 2"
  by (simp_all add: short_backtester_def Backtester_init_def py_or_def settings_def)

text \<open>
  Claim C9.  At an entry opportunity (no open position, bullish pattern) with the EMA
  query returning the pair \<open>(es, el)\<close>, \<open>ema_filter_blocked\<close> is incremented iff
  both values are present and short \<open>\<le>\<close> long, and is unchanged otherwise; if either
  value is absent no position is opened and the result is unchanged.  With an open
  position in loss and an absent EMA value the exit checks never give the EMA exit, and
  unless the take-profit or the stop-loss threshold is met the position stays open and
  the result is unchanged.  The exit half of the loop body never changes the counter.
\<close>

theorem absent_trend_filter:
  "(is_bullish_pattern pattern_v
      \<and> get_ema_at_timestamp df_4h (timestamp candle) (ema_short_period bt) (ema_long_period bt)
          = Inr (es, el) \<longrightarrow>
      (\<exists>result' cur'.
         check_entry bt symbol_v timeframe_v df_4h candle pattern_v (result, None)
           = Inr (result', cur')
         \<and> (ema_filter_blocked result' = ema_filter_blocked result + 1
              \<longleftrightarrow> es \<noteq> None \<and> el \<noteq> None \<and> the es \<le> the el)
         \<and> (\<not> (es \<noteq> None \<and> el \<noteq> None \<and> the es \<le> the el) \<longrightarrow>
              ema_filter_blocked result' = ema_filter_blocked result)
         \<and> (es = None \<or> el = None \<longrightarrow> result' = result \<and> cur' = None)))
   \<and> (get_ema_at_timestamp df_4h (timestamp candle) (ema_short_period bt) (ema_long_period bt)
          = Inr (es, el)
       \<and> (es = None \<or> el = None)
       \<and> (close candle - entry_price pos) / entry_price pos < 0 \<longrightarrow>
         (\<forall>e. check_exit bt df_4h candle pos \<noteq> Inr (Some EMA_BEARISH, e))
         \<and> (\<not> (close candle - entry_price pos) / entry_price pos \<ge> take_profit bt
            \<and> \<not> (close candle - entry_price pos) / entry_price pos \<le> stop_loss bt \<longrightarrow>
              handle_open_position bt df_4h candle (result, Some pos)
                = Inr (result, Some pos)))
   \<and> (\<forall>st'. handle_open_position bt df_4h candle (result, cur) = Inr st' \<longrightarrow>
         ema_filter_blocked (fst st') = ema_filter_blocked result)"
proof (intro conjI impI allI)
  assume a: "is_bullish_pattern pattern_v
      \<and> get_ema_at_timestamp df_4h (timestamp candle) (ema_short_period bt) (ema_long_period bt)
          = Inr (es, el)"
  then have "pattern_v \<noteq> None" by (cases pattern_v) simp_all
  with a show "\<exists>result' cur'.
         check_entry bt symbol_v timeframe_v df_4h candle pattern_v (result, None)
           = Inr (result', cur')
         \<and> (ema_filter_blocked result' = ema_filter_blocked result + 1
              \<longleftrightarrow> es \<noteq> None \<and> el \<noteq> None \<and> the es \<le> the el)
         \<and> (\<not> (es \<noteq> None \<and> el \<noteq> None \<and> the es \<le> the el) \<longrightarrow>
              ema_filter_blocked result' = ema_filter_blocked result)
         \<and> (es = None \<or> el = None \<longrightarrow> result' = result \<and> cur' = None)"
    by (auto simp add: check_entry_def Let_def)
next
  fix e
  assume a: "get_ema_at_timestamp df_4h (timestamp candle) (ema_short_period bt) (ema_long_period bt)
          = Inr (es, el)
       \<and> (es = None \<or> el = None)
       \<and> (close candle - entry_price pos) / entry_price pos < 0"
  then show "check_exit bt df_4h candle pos \<noteq> Inr (Some EMA_BEARISH, e)"
    by (auto simp add: check_exit_def Let_def)
next
  assume a: "get_ema_at_timestamp df_4h (timestamp candle) (ema_short_period bt) (ema_long_period bt)
          = Inr (es, el)
       \<and> (es = None \<or> el = None)
       \<and> (close candle - entry_price pos) / entry_price pos < 0"
    and b: "\<not> (close candle - entry_price pos) / entry_price pos \<ge> take_profit bt
            \<and> \<not> (close candle - entry_price pos) / entry_price pos \<le> stop_loss bt"
  from a b have "check_exit bt df_4h candle pos = Inr (None, close candle)"
    by (intro check_exit_hold [where es = es and el = el]) auto
  then show "handle_open_position bt df_4h candle (result, Some pos) = Inr (result, Some pos)"
    by (simp add: handle_open_position_def)
next
  fix st'
  assume "handle_open_position bt df_4h candle (result, cur) = Inr st'"
  then show "ema_filter_blocked (fst st') = ema_filter_blocked result"
    using handle_open_position_counter(1) [of bt df_4h candle result cur "fst st'" "snd st'"]
    by simp
qed


theorem absent_trend_filter_witness:
  "is_bullish_pattern (Some HAMMER)
   \<and> get_ema_at_timestamp falling_ref_series (timestamp loss_candle)
        (ema_short_period short_backtester) (ema_long_period short_backtester)
       = Inr (Some 10, Some (32 / 3))
   \<and> (\<exists>result' cur'.
         check_entry short_backtester ''BTCUSDC'' ''1h'' falling_ref_series loss_candle
           (Some HAMMER) (new_result ''BTCUSDC'' ''1h'' [], None) = Inr (result', cur')
         \<and> ema_filter_blocked result' = 1)
   \<and> get_ema_at_timestamp (take 1 falling_ref_series) (timestamp loss_candle)
        (ema_short_period short_backtester) (ema_long_period short_backtester)
       = Inr (None, None)
   \<and> (close loss_candle - entry_price test_position) / entry_price test_position < 0
   \<and> handle_open_position short_backtester (take 1 falling_ref_series) loss_candle
        (new_result ''BTCUSDC'' ''1h'' [], Some test_position)
       = Inr (new_result ''BTCUSDC'' ''1h'' [], Some test_position)
   \<and> (\<exists>result' cur'.
         check_entry short_backtester ''BTCUSDC'' ''1h'' (take 1 falling_ref_series) loss_candle
           (Some HAMMER) (new_result ''BTCUSDC'' ''1h'' [], None) = Inr (result', cur')
         \<and> ema_filter_blocked result' = 0 \<and> cur' = None)"
proof -
  have b: "is_bullish_pattern (Some HAMMER)" by simp
  have g1: "get_ema_at_timestamp falling_ref_series (timestamp loss_candle)
        (ema_short_period short_backtester) (ema_long_period short_backtester)
       = Inr (Some 10, Some (32 / 3))"
    by (simp add: get_ema_at_timestamp_completed falling_ref_series_def loss_candle_def
        mk_kline_def calculate_ema_def short_backtester_fields)
  have g2: "get_ema_at_timestamp (take 1 falling_ref_series) (timestamp loss_candle)
        (ema_short_period short_backtester) (ema_long_period short_backtester)
       = Inr (None, None)"
    by (simp add: get_ema_at_timestamp_completed falling_ref_series_def loss_candle_def
        mk_kline_def short_backtester_fields)
  have r: "(close loss_candle - entry_price test_position) / entry_price test_position < 0"
    "\<not> (close loss_candle - entry_price test_position) / entry_price test_position
         \<ge> take_profit short_backtester"
    "\<not> (close loss_candle - entry_price test_position) / entry_price test_position
         \<le> stop_loss short_backtester"
    by (simp_all add: loss_candle_def mk_kline_def test_position_def short_backtester_fields)
  have n: "ema_filter_blocked (new_result ''BTCUSDC'' ''1h'' []) = 0"
    by (simp add: new_result_def)
  from absent_trend_filter [where pattern_v = "Some HAMMER" and df_4h = falling_ref_series
      and candle = loss_candle and bt = short_backtester and es = "Some 10"
      and el = "Some (32 / 3)" and symbol_v = "''BTCUSDC''" and timeframe_v = "''1h''"
      and result = "new_result ''BTCUSDC'' ''1h'' []"] b g1 n
  have w1: "\<exists>result' cur'.
         check_entry short_backtester ''BTCUSDC'' ''1h'' falling_ref_series loss_candle
           (Some HAMMER) (new_result ''BTCUSDC'' ''1h'' [], None) = Inr (result', cur')
         \<and> ema_filter_blocked result' = 1"
    by simp
  from absent_trend_filter [where pattern_v = "Some HAMMER"
      and df_4h = "take 1 falling_ref_series"
      and candle = loss_candle and bt = short_backtester and es = None
      and el = None and symbol_v = "''BTCUSDC''" and timeframe_v = "''1h''"
      and result = "new_result ''BTCUSDC'' ''1h'' []" and pos = test_position] b g2 r n
  have w2: "handle_open_position short_backtester (take 1 falling_ref_series) loss_candle
        (new_result ''BTCUSDC'' ''1h'' [], Some test_position)
       = Inr (new_result ''BTCUSDC'' ''1h'' [], Some test_position)"
    and w3: "\<exists>result' cur'.
         check_entry short_backtester ''BTCUSDC'' ''1h'' (take 1 falling_ref_series) loss_candle
           (Some HAMMER) (new_result ''BTCUSDC'' ''1h'' [], None) = Inr (result', cur')
         \<and> ema_filter_blocked result' = 0 \<and> cur' = None"
    by auto
  from b g1 w1 g2 r(1) w2 w3 show ?thesis by blast
qed


section \<open>The run: one position at a time\<close>

lemma check_exit_reason:
  assumes "check_exit bt df_4h candle pos = Inr (Some reason, e)"
  shows "reason \<noteq> FORCED_CLOSE"
  using assms
  by (auto simp add: check_exit_def Let_def split: if_splits sum.splits prod.splits)

lemma handle_open_position_cases:
  assumes "handle_open_position bt df_4h candle (result, cur) = Inr (result', cur')"
  shows "(result' = result \<and> cur' = cur)
       \<or> (\<exists>pos reason e. cur = Some pos \<and> cur' = None \<and> reason \<noteq> FORCED_CLOSE
             \<and> record_exit bt df_4h result pos (timestamp candle) e reason = Inr result')"
proof (cases cur)
  case None
  with assms show ?thesis by (simp add: handle_open_position_def)
next
  case (Some pos)
  show ?thesis
  proof (cases "check_exit bt df_4h candle pos")
    case (Inl err)
    with Some assms show ?thesis by (simp add: handle_open_position_def)
  next
    case (Inr x)
    obtain ro e where x: "x = (ro, e)" by (cases x)
    show ?thesis
    proof (cases ro)
      case None
      with Some Inr x assms show ?thesis by (simp add: handle_open_position_def)
    next
      case (Some reason)
      with Inr x have c: "check_exit bt df_4h candle pos = Inr (Some reason, e)" by simp
      from check_exit_reason [OF c] have f: "reason \<noteq> FORCED_CLOSE" .
      from assms \<open>cur = Some pos\<close> c
      have "record_exit bt df_4h result pos (timestamp candle) e reason = Inr result'"
        and "cur' = None"
        by (auto simp add: handle_open_position_def split: sum.splits)
      with f \<open>cur = Some pos\<close> show ?thesis by blast
    qed
  qed
qed

lemma check_entry_cases:
  assumes "check_entry bt symbol_v timeframe_v df_4h candle pattern_v (result, cur)
             = Inr (result', cur')"
  shows "positions result' = positions result \<and> total_trades result' = total_trades result
       \<and> ((cur' = cur)
          \<or> (cur = None \<and> is_bullish_pattern pattern_v \<and> result' = result
              \<and> (\<exists>es el. get_ema_at_timestamp df_4h (timestamp candle) (ema_short_period bt)
                            (ema_long_period bt) = Inr (Some es, Some el)
                    \<and> es > el
                    \<and> cur' = Some \<lparr> symbol = symbol_v, timeframe = timeframe_v,
                                    entry_time = timestamp candle,
                                    entry_price = close candle,
                                    quantity = trade_amount bt / close candle,
                                    pattern = the pattern_v,
                                    entry_ema_short = es, entry_ema_long = el,
                                    exit_time = None, exit_price = None,
                                    exit_reason = None, exit_ema_short = None,
                                    exit_ema_long = None, pnl = 0, pnl_percent = 0,
                                    fees = 0, net_pnl = 0 \<rparr>)))"
  using assms
  by (auto simp add: check_entry_def Let_def split: if_splits sum.splits prod.splits)

lemma check_entry_not_flat:
  assumes "check_entry bt symbol_v timeframe_v df_4h candle pattern_v (result, Some pos)
             = Inr (result', cur')"
  shows "result' = result \<and> cur' = Some pos"
  using assms by (simp add: check_entry_def)


lemma record_exit_total_trades:
  assumes "record_exit bt df_4h result pos ts e reason = Inr result'"
  shows "total_trades result' = total_trades result + 1"
  using assms by (rule record_exit_Inr)

lemma closed_invariant_record_exit:
  assumes i: "closed_invariant (result, Some pos)"
    and r: "record_exit bt df_4h result pos ts e reason = Inr result'"
    and f: "reason \<noteq> FORCED_CLOSE"
  shows "closed_invariant (result', None)"
proof -
  from record_exit_appends [OF r] obtain p where
    p: "positions result' = positions result @ [p]" "exit_time p = Some ts"
       "exit_reason p = Some reason"
    by blast
  from record_exit_total_trades [OF r] have "total_trades result' = total_trades result + 1" .
  with i p f show ?thesis
    by (auto simp add: closed_invariant_def)
qed

lemma closed_invariant_patterns_detected:
  "closed_invariant (result\<lparr>patterns_detected := n\<rparr>, cur) = closed_invariant (result, cur)"
  by (simp add: closed_invariant_def)

lemma closed_invariant_handle_open_position:
  assumes i: "closed_invariant (result, cur)"
    and h: "handle_open_position bt df_4h candle (result, cur) = Inr (result', cur')"
  shows "closed_invariant (result', cur')"
  using handle_open_position_cases [OF h] i
  by (auto intro: closed_invariant_record_exit)

lemma closed_invariant_check_entry:
  assumes i: "closed_invariant (result, cur)"
    and h: "check_entry bt symbol_v timeframe_v df_4h candle pattern_v (result, cur)
             = Inr (result', cur')"
  shows "closed_invariant (result', cur')"
  using check_entry_cases [OF h] i
  by (auto simp add: closed_invariant_def)

lemma closed_invariant_step:
  assumes i: "closed_invariant st"
    and h: "backtest_step bt symbol_v timeframe_v df df_4h i st = Inr st'"
  shows "closed_invariant st'"
proof -
  obtain result cur where st: "st = (result, cur)" by (cases st)
  obtain result' cur' where st': "st' = (result', cur')" by (cases st')
  let ?r = "if detect_patterns df (int i) \<noteq> None
            then result\<lparr>patterns_detected := patterns_detected result + 1\<rparr> else result"
  from i st have i1: "closed_invariant (?r, cur)"
    by (simp add: closed_invariant_patterns_detected)
  from h st st' obtain r1 c1 where
    a: "handle_open_position bt df_4h (df ! i) (?r, cur) = Inr (r1, c1)"
    and b: "check_entry bt symbol_v timeframe_v df_4h (df ! i) (detect_patterns df (int i)) (r1, c1)
              = Inr (result', cur')"
    by (auto simp add: backtest_step_def Let_def split: sum.splits)
  from closed_invariant_handle_open_position [OF i1 a]
  have "closed_invariant (r1, c1)" .
  from closed_invariant_check_entry [OF this b] st' show ?thesis by simp
qed

lemma closed_invariant_loop:
  assumes "closed_invariant st"
    and "backtest_loop bt symbol_v timeframe_v df df_4h is st = Inr st'"
  shows "closed_invariant st'"
  using assms
proof (induction "is" arbitrary: st)
  case Nil
  then show ?case by simp
next
  case (Cons i "is")
  from Cons.prems(2) obtain st1 where
    s: "backtest_step bt symbol_v timeframe_v df df_4h i st = Inr st1"
    and l: "backtest_loop bt symbol_v timeframe_v df df_4h is st1 = Inr st'"
    by (auto split: sum.splits)
  from closed_invariant_step [OF Cons.prems(1) s] have "closed_invariant st1" .
  from Cons.IH [OF this l] show ?case .
qed

lemma closed_invariant_open_positions:
  assumes "closed_invariant st"
  shows "length (open_positions st) \<le> 1"
proof -
  from assms have "filter (\<lambda>p. exit_time p = None) (positions (fst st)) = []"
    by (auto simp add: closed_invariant_def filter_empty_conv)
  then show ?thesis
    by (simp add: open_positions_def split: option.splits)
qed

lemma closed_invariant_initial:
  "closed_invariant (hodl_benchmark bt df (new_result symbol_v timeframe_v df), None)"
  by (simp add: closed_invariant_def hodl_benchmark_def new_result_def Let_def)


lemma aggregate_statistics_positions:
  "positions (aggregate_statistics result) = positions result"
  "total_trades (aggregate_statistics result) = total_trades result"
  by (simp_all add: aggregate_statistics_def Let_def)

lemma backtest_unfold:
  assumes "3 \<le> length df"
  shows "backtest bt symbol_v timeframe_v df df_4h =
     (case backtest_loop bt symbol_v timeframe_v df df_4h [2 ..< length df]
             (hodl_benchmark bt df (new_result symbol_v timeframe_v df), None) of
        Inl e \<Rightarrow> Inl e
      | Inr st \<Rightarrow> (case force_close bt df df_4h st of
                     Inl e \<Rightarrow> Inl e
                   | Inr result \<Rightarrow> Inr (aggregate_statistics result)))"
  using assms by (simp add: backtest_def Let_def)

lemma backtest_Inr:
  assumes "backtest bt symbol_v timeframe_v df df_4h = Inr final"
  shows "(length df < 3 \<and> final = new_result symbol_v timeframe_v df)
       \<or> (3 \<le> length df
          \<and> (\<exists>st result.
                backtest_loop bt symbol_v timeframe_v df df_4h [2 ..< length df]
                  (hodl_benchmark bt df (new_result symbol_v timeframe_v df), None) = Inr st
                \<and> force_close bt df df_4h st = Inr result
                \<and> final = aggregate_statistics result))"
proof (cases "length df < 3")
  case True
  with assms show ?thesis by (simp add: backtest_def)
next
  case False
  then have "3 \<le> length df" by simp
  from assms [unfolded backtest_unfold [OF this]] this show ?thesis
    by (auto split: sum.splits)
qed

lemma force_close_closed:
  assumes i: "closed_invariant st"
    and f: "force_close bt df df_4h st = Inr result"
  shows "total_trades result = int (length (positions result))"
    and "\<forall>p \<in> set (positions result). exit_time p \<noteq> None"
proof -
  obtain r cur where st: "st = (r, cur)" by (cases st)
  show "total_trades result = int (length (positions result))"
  proof (cases cur)
    case None
    with i f st show ?thesis by (simp add: force_close_def closed_invariant_def)
  next
    case (Some pos)
    with f st have r: "record_exit bt df_4h r pos (timestamp (last df)) (close (last df))
                         FORCED_CLOSE = Inr result"
      by (simp add: force_close_def Let_def)
    from record_exit_appends [OF r] record_exit_total_trades [OF r] i st
    show ?thesis by (auto simp add: closed_invariant_def)
  qed
  show "\<forall>p \<in> set (positions result). exit_time p \<noteq> None"
  proof (cases cur)
    case None
    with i f st show ?thesis by (simp add: force_close_def closed_invariant_def)
  next
    case (Some pos)
    with f st have r: "record_exit bt df_4h r pos (timestamp (last df)) (close (last df))
                         FORCED_CLOSE = Inr result"
      by (simp add: force_close_def Let_def)
    from record_exit_appends [OF r] i st
    show ?thesis by (auto simp add: closed_invariant_def)
  qed
qed

lemma no_forced_close_in_loop:
  assumes "closed_invariant (result, cur)"
  shows "filter (\<lambda>q. exit_reason q = Some FORCED_CLOSE) (positions result) = []"
  using assms by (auto simp add: closed_invariant_def filter_empty_conv)

lemma trade_series_nth:
  "length trade_series = 4"
  "trade_series ! 2 = mk_kline 9 10 10 0 10 10"
  "trade_series ! 3 = mk_kline 10 10 10.4 10 10.2 11"
  "last trade_series = mk_kline 10 10 10.4 10 10.2 11"
  by (simp_all add: trade_series_def)

lemma trade_series_patterns:
  "detect_patterns trade_series 2 = Some HAMMER"
  "detect_patterns trade_series 3 = None"
  by (simp_all add: trade_series_def mk_kline_def detect_patterns_def detect_defs)

lemma ref_series_a_ema:
  "get_ema_at_timestamp ref_series_a 9 1 2 = Inr (Some 12, Some (34 / 3))"
  "get_ema_at_timestamp ref_series_a 10 1 2 = Inr (Some 12, Some (34 / 3))"
  by (simp_all add: get_ema_at_timestamp_completed ref_series_a_def mk_kline_def
      calculate_ema_def)

lemma trade_series_step_2:
  "backtest_step short_backtester ''BTCUSDC'' ''1h'' trade_series ref_series_a 2 (result, None)
     = Inr (result\<lparr>patterns_detected := patterns_detected result + 1\<rparr>, Some entered_position)"
  by (simp add: backtest_step_def handle_open_position_def check_entry_def
      trade_series_nth trade_series_patterns ref_series_a_ema short_backtester_fields
      mk_kline_def entered_position_def Let_def del: not_None_eq)

lemma trade_series_step_3:
  "backtest_step short_backtester ''BTCUSDC'' ''1h'' trade_series ref_series_a 3
     (result, Some entered_position)
     = Inr (result, Some entered_position)"
  by (simp add: backtest_step_def handle_open_position_def check_entry_def check_exit_def
      trade_series_nth trade_series_patterns ref_series_a_ema short_backtester_fields
      mk_kline_def entered_position_def Let_def del: not_None_eq)

lemma trade_series_loop:
  "backtest_loop short_backtester ''BTCUSDC'' ''1h'' trade_series ref_series_a
     [2 ..< length trade_series] (result, None)
     = Inr (result\<lparr>patterns_detected := patterns_detected result + 1\<rparr>, Some entered_position)"
proof -
  have "[2 ..< length trade_series] = [2, 3]"
    by (simp add: trade_series_nth upt_rec)
  then show ?thesis
    by (simp add: trade_series_step_2 trade_series_step_3)
qed


text \<open>
  Claim C4.  After every iteration of the loop (the loop run over \<open>2 ..< k\<close> from
  the initial state, for any \<open>k\<close>) at most one position is open: every recorded
  position has an exit time, only the held one is open, and \<open>total_trades\<close> is the
  number of recorded positions.  If a position is held when the loop ends, \<open>backtest\<close>
  appends it once, closed with reason Forced Close at the last candle's close price
  and timestamp, and it is the only position of the result with that reason (if the
  EMA query at the last timestamp raises, \<open>backtest\<close> raises); if none is held,
  nothing is appended and no position has that reason.  In every result of \<open>backtest\<close>
  \<open>total_trades\<close> equals the length of \<open>positions\<close> and every position is closed.
\<close>

theorem single_position_invariant:
  "(\<forall>k st. backtest_loop bt symbol_v timeframe_v df df_4h [2 ..< k]
               (hodl_benchmark bt df (new_result symbol_v timeframe_v df), None) = Inr st \<longrightarrow>
        length (open_positions st) \<le> 1
        \<and> (\<forall>p \<in> set (positions (fst st)). exit_time p \<noteq> None)
        \<and> total_trades (fst st) = int (length (positions (fst st))))
   \<and> (\<forall>result pos.
        3 \<le> length df
        \<and> backtest_loop bt symbol_v timeframe_v df df_4h [2 ..< length df]
              (hodl_benchmark bt df (new_result symbol_v timeframe_v df), None)
            = Inr (result, Some pos) \<longrightarrow>
        (\<forall>err. get_ema_at_timestamp df_4h (timestamp (last df)) (ema_short_period bt)
                 (ema_long_period bt) = Inl err \<longrightarrow>
               backtest bt symbol_v timeframe_v df df_4h = Inl err)
        \<and> ((\<exists>es el. get_ema_at_timestamp df_4h (timestamp (last df)) (ema_short_period bt)
                 (ema_long_period bt) = Inr (es, el)) \<longrightarrow>
            (\<exists>final p.
               backtest bt symbol_v timeframe_v df df_4h = Inr final
               \<and> positions final = positions result @ [p]
               \<and> exit_reason p = Some FORCED_CLOSE
               \<and> exit_price p = Some (close (last df))
               \<and> exit_time p = Some (timestamp (last df))
               \<and> entry_time p = entry_time pos \<and> entry_price p = entry_price pos
               \<and> length (filter (\<lambda>q. exit_reason q = Some FORCED_CLOSE) (positions final)) = 1)))
   \<and> (\<forall>result.
        3 \<le> length df
        \<and> backtest_loop bt symbol_v timeframe_v df df_4h [2 ..< length df]
              (hodl_benchmark bt df (new_result symbol_v timeframe_v df), None)
            = Inr (result, None) \<longrightarrow>
        (\<exists>final. backtest bt symbol_v timeframe_v df df_4h = Inr final
           \<and> positions final = positions result
           \<and> filter (\<lambda>q. exit_reason q = Some FORCED_CLOSE) (positions final) = []))
   \<and> (\<forall>final. backtest bt symbol_v timeframe_v df df_4h = Inr final \<longrightarrow>
        total_trades final = int (length (positions final))
        \<and> (\<forall>p \<in> set (positions final). exit_time p \<noteq> None))"
proof (intro conjI allI impI)
  fix k st
  assume l: "backtest_loop bt symbol_v timeframe_v df df_4h [2 ..< k]
               (hodl_benchmark bt df (new_result symbol_v timeframe_v df), None) = Inr st"
  from closed_invariant_loop [OF closed_invariant_initial l]
  have c: "closed_invariant st" .
  then show "length (open_positions st) \<le> 1"
    by (rule closed_invariant_open_positions)
  from c show "total_trades (fst st) = int (length (positions (fst st)))"
    by (simp add: closed_invariant_def)
  from c show "\<forall>p \<in> set (positions (fst st)). exit_time p \<noteq> None"
    by (simp add: closed_invariant_def)
next
  fix result pos err
  assume a: "3 \<le> length df
        \<and> backtest_loop bt symbol_v timeframe_v df df_4h [2 ..< length df]
              (hodl_benchmark bt df (new_result symbol_v timeframe_v df), None)
            = Inr (result, Some pos)"
    and g: "get_ema_at_timestamp df_4h (timestamp (last df)) (ema_short_period bt)
                 (ema_long_period bt) = Inl err"
  from a have u: "3 \<le> length df" by simp
  from a record_exit_raises [OF g]
  show "backtest bt symbol_v timeframe_v df df_4h = Inl err"
    by (simp add: backtest_unfold [OF u] force_close_def Let_def)
next
  fix result pos
  assume a: "3 \<le> length df
        \<and> backtest_loop bt symbol_v timeframe_v df df_4h [2 ..< length df]
              (hodl_benchmark bt df (new_result symbol_v timeframe_v df), None)
            = Inr (result, Some pos)"
    and g: "\<exists>es el. get_ema_at_timestamp df_4h (timestamp (last df)) (ema_short_period bt)
                 (ema_long_period bt) = Inr (es, el)"
  from a have u: "3 \<le> length df"
    and l: "backtest_loop bt symbol_v timeframe_v df df_4h [2 ..< length df]
              (hodl_benchmark bt df (new_result symbol_v timeframe_v df), None)
            = Inr (result, Some pos)"
    by simp_all
  from closed_invariant_loop [OF closed_invariant_initial l]
  have c: "closed_invariant (result, Some pos)" .
  from g obtain es el where g': "get_ema_at_timestamp df_4h (timestamp (last df))
       (ema_short_period bt) (ema_long_period bt) = Inr (es, el)"
    by blast
  from record_exit_returns [OF g'] obtain r1 where
    r: "record_exit bt df_4h result pos (timestamp (last df)) (close (last df)) FORCED_CLOSE
          = Inr r1"
    by blast
  from record_exit_appends [OF r] obtain p where
    p: "positions r1 = positions result @ [p]" "exit_time p = Some (timestamp (last df))"
       "exit_price p = Some (close (last df))" "exit_reason p = Some FORCED_CLOSE"
       "entry_time p = entry_time pos" "entry_price p = entry_price pos"
    by blast
  have b: "backtest bt symbol_v timeframe_v df df_4h = Inr (aggregate_statistics r1)"
    using l r by (simp add: backtest_unfold [OF u] force_close_def Let_def)
  have n: "length (filter (\<lambda>q. exit_reason q = Some FORCED_CLOSE)
             (positions (aggregate_statistics r1))) = 1"
    using p no_forced_close_in_loop [OF c]
    by (simp add: aggregate_statistics_positions)
  from b p n
  show "\<exists>final p.
               backtest bt symbol_v timeframe_v df df_4h = Inr final
               \<and> positions final = positions result @ [p]
               \<and> exit_reason p = Some FORCED_CLOSE
               \<and> exit_price p = Some (close (last df))
               \<and> exit_time p = Some (timestamp (last df))
               \<and> entry_time p = entry_time pos \<and> entry_price p = entry_price pos
               \<and> length (filter (\<lambda>q. exit_reason q = Some FORCED_CLOSE) (positions final)) = 1"
    by (auto simp add: aggregate_statistics_positions)
next
  fix result
  assume a: "3 \<le> length df
        \<and> backtest_loop bt symbol_v timeframe_v df df_4h [2 ..< length df]
              (hodl_benchmark bt df (new_result symbol_v timeframe_v df), None)
            = Inr (result, None)"
  from a have u: "3 \<le> length df"
    and l: "backtest_loop bt symbol_v timeframe_v df df_4h [2 ..< length df]
              (hodl_benchmark bt df (new_result symbol_v timeframe_v df), None)
            = Inr (result, None)"
    by simp_all
  from closed_invariant_loop [OF closed_invariant_initial l]
  have c: "closed_invariant (result, None)" .
  have b: "backtest bt symbol_v timeframe_v df df_4h = Inr (aggregate_statistics result)"
    using l by (simp add: backtest_unfold [OF u] force_close_def)
  with no_forced_close_in_loop [OF c]
  show "\<exists>final. backtest bt symbol_v timeframe_v df df_4h = Inr final
           \<and> positions final = positions result
           \<and> filter (\<lambda>q. exit_reason q = Some FORCED_CLOSE) (positions final) = []"
    by (simp add: aggregate_statistics_positions)
next
  fix final
  assume b: "backtest bt symbol_v timeframe_v df df_4h = Inr final"
  from backtest_Inr [OF b]
  have "total_trades final = int (length (positions final))
        \<and> (\<forall>p \<in> set (positions final). exit_time p \<noteq> None)"
  proof (elim disjE conjE exE)
    assume "final = new_result symbol_v timeframe_v df"
    then show ?thesis by (simp add: new_result_def)
  next
    fix st result
    assume l: "backtest_loop bt symbol_v timeframe_v df df_4h [2 ..< length df]
                  (hodl_benchmark bt df (new_result symbol_v timeframe_v df), None) = Inr st"
      and f: "force_close bt df df_4h st = Inr result"
      and e: "final = aggregate_statistics result"
    from closed_invariant_loop [OF closed_invariant_initial l]
    have c: "closed_invariant st" .
    from force_close_closed [OF c f] e show ?thesis
      by (simp add: aggregate_statistics_positions)
  qed
  then show "total_trades final = int (length (positions final))"
    and "\<forall>p \<in> set (positions final). exit_time p \<noteq> None"
    by simp_all
qed


theorem single_position_invariant_witness:
  "3 \<le> length trade_series
   \<and> (\<exists>result.
         backtest_loop short_backtester ''BTCUSDC'' ''1h'' trade_series ref_series_a
           [2 ..< length trade_series]
           (hodl_benchmark short_backtester trade_series
              (new_result ''BTCUSDC'' ''1h'' trade_series), None)
          = Inr (result, Some entered_position)
         \<and> positions result = []
         \<and> length (open_positions (result, Some entered_position)) \<le> 1)
   \<and> (\<exists>final p.
         backtest short_backtester ''BTCUSDC'' ''1h'' trade_series ref_series_a = Inr final
         \<and> positions final = [p] \<and> total_trades final = 1
         \<and> entry_time p = 9 \<and> entry_price p = 10
         \<and> exit_reason p = Some FORCED_CLOSE \<and> exit_price p = Some 10.2
         \<and> exit_time p = Some 10)"
proof -
  let ?init = "hodl_benchmark short_backtester trade_series
              (new_result ''BTCUSDC'' ''1h'' trade_series)"
  let ?r = "?init\<lparr>patterns_detected := patterns_detected ?init + 1\<rparr>"
  have u: "3 \<le> length trade_series"
    by (simp add: trade_series_nth)
  have l: "backtest_loop short_backtester ''BTCUSDC'' ''1h'' trade_series ref_series_a
           [2 ..< length trade_series] (?init, None) = Inr (?r, Some entered_position)"
    by (rule trade_series_loop)
  have n: "positions ?r = []"
    by (simp add: hodl_benchmark_def new_result_def Let_def)
  have g: "\<exists>es el. get_ema_at_timestamp ref_series_a (timestamp (last trade_series))
             (ema_short_period short_backtester) (ema_long_period short_backtester)
           = Inr (es, el)"
    by (simp add: trade_series_nth mk_kline_def short_backtester_fields ref_series_a_ema)
  have c: "close (last trade_series) = 10.2" "timestamp (last trade_series) = 10"
    "entry_time entered_position = 9" "entry_price entered_position = 10"
    by (simp_all add: trade_series_nth mk_kline_def entered_position_def)
  note t = single_position_invariant [where bt = short_backtester and symbol_v = "''BTCUSDC''"
      and timeframe_v = "''1h''" and df = trade_series and df_4h = ref_series_a]
  from t l have o: "length (open_positions (?r, Some entered_position)) \<le> 1"
    by blast
  from t u l g obtain final p where
    f: "backtest short_backtester ''BTCUSDC'' ''1h'' trade_series ref_series_a = Inr final"
       "positions final = positions ?r @ [p]"
       "exit_reason p = Some FORCED_CLOSE"
       "exit_price p = Some (close (last trade_series))"
       "exit_time p = Some (timestamp (last trade_series))"
       "entry_time p = entry_time entered_position"
       "entry_price p = entry_price entered_position"
    by blast
  from t f(1) have "total_trades final = int (length (positions final))"
    by blast
  with f n c have "backtest short_backtester ''BTCUSDC'' ''1h'' trade_series ref_series_a = Inr final
         \<and> positions final = [p] \<and> total_trades final = 1
         \<and> entry_time p = 9 \<and> entry_price p = 10
         \<and> exit_reason p = Some FORCED_CLOSE \<and> exit_price p = Some 10.2
         \<and> exit_time p = Some 10"
    by simp
  with u l n o show ?thesis by blast
qed


section \<open>The run: entries\<close>

lemma entered_at_cong:
  assumes "entry_time p = entry_time q" "entry_price p = entry_price q"
    "quantity p = quantity q" "pattern p = pattern q"
    "entry_ema_short p = entry_ema_short q" "entry_ema_long p = entry_ema_long q"
  shows "entered_at bt df df_4h i p = entered_at bt df df_4h i q"
  using assms by (simp add: entered_at_def)

lemma entry_invariant_record_exit:
  assumes i: "entry_invariant bt df df_4h (result, Some pos)"
    and r: "record_exit bt df_4h result pos ts e reason = Inr result'"
  shows "entry_invariant bt df df_4h (result', None)"
proof -
  from record_exit_appends [OF r] obtain p where
    p: "positions result' = positions result @ [p]"
       "entry_time p = entry_time pos" "entry_price p = entry_price pos"
       "quantity p = quantity pos" "pattern p = pattern pos"
       "entry_ema_short p = entry_ema_short pos" "entry_ema_long p = entry_ema_long pos"
    by blast
  from p(2-7) have "\<And>i. entered_at bt df df_4h i p = entered_at bt df df_4h i pos"
    by (rule entered_at_cong)
  with i p(1) show ?thesis
    by (auto simp add: entry_invariant_def)
qed

lemma entry_invariant_patterns_detected:
  "entry_invariant bt df df_4h (result\<lparr>patterns_detected := n\<rparr>, cur)
     = entry_invariant bt df df_4h (result, cur)"
  by (simp add: entry_invariant_def)

lemma entry_invariant_handle_open_position:
  assumes i: "entry_invariant bt df df_4h (result, cur)"
    and h: "handle_open_position bt df_4h candle (result, cur) = Inr (result', cur')"
  shows "entry_invariant bt df df_4h (result', cur')"
  using handle_open_position_cases [OF h] i
  by (auto intro: entry_invariant_record_exit)

lemma is_bullish_pattern_the:
  assumes "is_bullish_pattern pattern_v"
  shows "pattern_v = Some (the pattern_v)"
    and "the pattern_v \<in> {HAMMER, BULLISH_ENGULFING, MORNING_STAR}"
  using assms by (cases pattern_v; simp)+

lemma entry_invariant_check_entry:
  assumes i: "entry_invariant bt df df_4h (result, cur)"
    and k: "2 \<le> k" "k < length df"
    and h: "check_entry bt symbol_v timeframe_v df_4h (df ! k) (detect_patterns df (int k))
              (result, cur) = Inr (result', cur')"
  shows "entry_invariant bt df df_4h (result', cur')"
proof -
  from check_entry_cases [OF h]
  have ps: "positions result' = positions result"
    and cs: "cur' = cur
       \<or> (cur = None \<and> is_bullish_pattern (detect_patterns df (int k)) \<and> result' = result
              \<and> (\<exists>es el. get_ema_at_timestamp df_4h (timestamp (df ! k)) (ema_short_period bt)
                            (ema_long_period bt) = Inr (Some es, Some el)
                    \<and> es > el
                    \<and> cur' = Some \<lparr> symbol = symbol_v, timeframe = timeframe_v,
                                    entry_time = timestamp (df ! k),
                                    entry_price = close (df ! k),
                                    quantity = trade_amount bt / close (df ! k),
                                    pattern = the (detect_patterns df (int k)),
                                    entry_ema_short = es, entry_ema_long = el,
                                    exit_time = None, exit_price = None,
                                    exit_reason = None, exit_ema_short = None,
                                    exit_ema_long = None, pnl = 0, pnl_percent = 0,
                                    fees = 0, net_pnl = 0 \<rparr>))"
    by simp_all
  from cs show ?thesis
  proof
    assume "cur' = cur"
    with i ps show ?thesis by (simp add: entry_invariant_def)
  next
    assume a: "cur = None \<and> is_bullish_pattern (detect_patterns df (int k)) \<and> result' = result
              \<and> (\<exists>es el. get_ema_at_timestamp df_4h (timestamp (df ! k)) (ema_short_period bt)
                            (ema_long_period bt) = Inr (Some es, Some el)
                    \<and> es > el
                    \<and> cur' = Some \<lparr> symbol = symbol_v, timeframe = timeframe_v,
                                    entry_time = timestamp (df ! k),
                                    entry_price = close (df ! k),
                                    quantity = trade_amount bt / close (df ! k),
                                    pattern = the (detect_patterns df (int k)),
                                    entry_ema_short = es, entry_ema_long = el,
                                    exit_time = None, exit_price = None,
                                    exit_reason = None, exit_ema_short = None,
                                    exit_ema_long = None, pnl = 0, pnl_percent = 0,
                                    fees = 0, net_pnl = 0 \<rparr>)"
    then obtain es el where
      g: "get_ema_at_timestamp df_4h (timestamp (df ! k)) (ema_short_period bt)
            (ema_long_period bt) = Inr (Some es, Some el)"
      and gt: "es > el"
      and c: "cur' = Some \<lparr> symbol = symbol_v, timeframe = timeframe_v,
                                    entry_time = timestamp (df ! k),
                                    entry_price = close (df ! k),
                                    quantity = trade_amount bt / close (df ! k),
                                    pattern = the (detect_patterns df (int k)),
                                    entry_ema_short = es, entry_ema_long = el,
                                    exit_time = None, exit_price = None,
                                    exit_reason = None, exit_ema_short = None,
                                    exit_ema_long = None, pnl = 0, pnl_percent = 0,
                                    fees = 0, net_pnl = 0 \<rparr>"
      by blast
    from a have b: "is_bullish_pattern (detect_patterns df (int k))" by simp
    define p where "p = \<lparr> symbol = symbol_v, timeframe = timeframe_v,
                                    entry_time = timestamp (df ! k),
                                    entry_price = close (df ! k),
                                    quantity = trade_amount bt / close (df ! k),
                                    pattern = the (detect_patterns df (int k)),
                                    entry_ema_short = es, entry_ema_long = el,
                                    exit_time = None, exit_price = None,
                                    exit_reason = None, exit_ema_short = None,
                                    exit_ema_long = None, pnl = 0, pnl_percent = 0,
                                    fees = 0, net_pnl = 0 \<rparr>"
    from c have p: "cur' = Some p" by (simp add: p_def)
    have e: "entered_at bt df df_4h k p"
      unfolding entered_at_def p_def
      using g gt is_bullish_pattern_the [OF b] by simp
    from k e have "\<exists>i \<in> {2 ..< length df}. entered_at bt df df_4h i p" by auto
    with i ps p show ?thesis by (simp add: entry_invariant_def)
  qed
qed

lemma entry_invariant_step:
  assumes i: "entry_invariant bt df df_4h st"
    and k: "2 \<le> k" "k < length df"
    and h: "backtest_step bt symbol_v timeframe_v df df_4h k st = Inr st'"
  shows "entry_invariant bt df df_4h st'"
proof -
  obtain result cur where st: "st = (result, cur)" by (cases st)
  obtain result' cur' where st': "st' = (result', cur')" by (cases st')
  let ?r = "if detect_patterns df (int k) \<noteq> None
            then result\<lparr>patterns_detected := patterns_detected result + 1\<rparr> else result"
  from i st have i1: "entry_invariant bt df df_4h (?r, cur)"
    by (simp add: entry_invariant_patterns_detected)
  from h st st' obtain r1 c1 where
    a: "handle_open_position bt df_4h (df ! k) (?r, cur) = Inr (r1, c1)"
    and b: "check_entry bt symbol_v timeframe_v df_4h (df ! k) (detect_patterns df (int k)) (r1, c1)
              = Inr (result', cur')"
    by (auto simp add: backtest_step_def Let_def split: sum.splits)
  from entry_invariant_handle_open_position [OF i1 a]
  have "entry_invariant bt df df_4h (r1, c1)" .
  from entry_invariant_check_entry [OF this k b] st' show ?thesis by simp
qed

lemma entry_invariant_loop:
  assumes "entry_invariant bt df df_4h st"
    and "\<forall>k \<in> set ks. 2 \<le> k \<and> k < length df"
    and "backtest_loop bt symbol_v timeframe_v df df_4h ks st = Inr st'"
  shows "entry_invariant bt df df_4h st'"
  using assms
proof (induction ks arbitrary: st)
  case Nil
  then show ?case by simp
next
  case (Cons k ks)
  from Cons.prems(3) obtain st1 where
    s: "backtest_step bt symbol_v timeframe_v df df_4h k st = Inr st1"
    and l: "backtest_loop bt symbol_v timeframe_v df df_4h ks st1 = Inr st'"
    by (auto split: sum.splits)
  from Cons.prems(2) have k: "2 \<le> k" "k < length df" by simp_all
  from entry_invariant_step [OF Cons.prems(1) k s]
  have "entry_invariant bt df df_4h st1" .
  moreover from Cons.prems(2) have "\<forall>k \<in> set ks. 2 \<le> k \<and> k < length df" by simp
  ultimately show ?case using l by (rule Cons.IH)
qed

lemma entry_invariant_initial:
  "entry_invariant bt df df_4h (hodl_benchmark bt df (new_result symbol_v timeframe_v df), None)"
  by (simp add: entry_invariant_def hodl_benchmark_def new_result_def Let_def)

lemma entry_invariant_force_close:
  assumes i: "entry_invariant bt df df_4h st"
    and f: "force_close bt df df_4h st = Inr result"
  shows "entry_invariant bt df df_4h (result, None)"
proof -
  obtain r cur where st: "st = (r, cur)" by (cases st)
  show ?thesis
  proof (cases cur)
    case None
    with i f st show ?thesis by (simp add: force_close_def)
  next
    case (Some pos)
    with f st have r: "record_exit bt df_4h r pos (timestamp (last df)) (close (last df))
                         FORCED_CLOSE = Inr result"
      by (simp add: force_close_def Let_def)
    from i st Some have "entry_invariant bt df df_4h (r, Some pos)" by simp
    from entry_invariant_record_exit [OF this r] show ?thesis .
  qed
qed


lemma trade_series_backtest:
  "\<exists>final p. backtest short_backtester ''BTCUSDC'' ''1h'' trade_series ref_series_a = Inr final
      \<and> positions final = [p] \<and> entry_time p = 9 \<and> entry_price p = 10 \<and> quantity p = 10
      \<and> pattern p = HAMMER"
proof -
  let ?init = "hodl_benchmark short_backtester trade_series
              (new_result ''BTCUSDC'' ''1h'' trade_series)"
  let ?r = "?init\<lparr>patterns_detected := patterns_detected ?init + 1\<rparr>"
  have u: "3 \<le> length trade_series"
    by (simp add: trade_series_nth)
  have n: "positions ?r = []"
    by (simp add: hodl_benchmark_def new_result_def Let_def)
  have g: "get_ema_at_timestamp ref_series_a (timestamp (last trade_series))
             (ema_short_period short_backtester) (ema_long_period short_backtester)
           = Inr (Some 12, Some (34 / 3))"
    by (simp add: trade_series_nth mk_kline_def short_backtester_fields ref_series_a_ema)
  from record_exit_returns [OF g] obtain r1 where
    r: "record_exit short_backtester ref_series_a ?r entered_position
          (timestamp (last trade_series)) (close (last trade_series)) FORCED_CLOSE = Inr r1"
    by blast
  from record_exit_appends [OF r] n obtain p where
    p: "positions r1 = [p]" "entry_time p = entry_time entered_position"
       "entry_price p = entry_price entered_position" "quantity p = quantity entered_position"
       "pattern p = pattern entered_position"
    by auto
  have "backtest short_backtester ''BTCUSDC'' ''1h'' trade_series ref_series_a
          = Inr (aggregate_statistics r1)"
    using r by (simp add: backtest_unfold [OF u] trade_series_loop force_close_def Let_def)
  with p show ?thesis
    by (simp add: aggregate_statistics_positions entered_position_def)
qed

text \<open>
  Claim C3.  The entry half of the loop body changes nothing while a position is held;
  when it changes the held position, the state was flat, the pattern passed to it is
  Hammer, Bullish Engulfing or Morning Star, the EMA query at the candle's timestamp
  returned both values with short above long, and the new position has the candle's
  close as entry price and \<open>trade_amount / close\<close> as quantity.  In every run, after
  every iteration and in the final result, each recorded position and the held one
  were entered at some index \<open>i\<close> of the loop: entry time and price are those of
  candle \<open>i\<close>, the quantity is \<open>trade_amount / price\<close>, the pattern is the bullish
  pattern detected at \<open>i\<close>, and the recorded entry EMAs are the pair returned for that
  timestamp, short above long.
\<close>

theorem entry_guard:
  "(\<forall>result' cur'.
      check_entry bt symbol_v timeframe_v df_4h candle pattern_v (result, cur)
        = Inr (result', cur') \<longrightarrow>
      (cur \<noteq> None \<longrightarrow> result' = result \<and> cur' = cur)
      \<and> (cur' \<noteq> cur \<longrightarrow>
           cur = None
           \<and> pattern_v \<in> {Some HAMMER, Some BULLISH_ENGULFING, Some MORNING_STAR}
           \<and> (\<exists>es el.
                 get_ema_at_timestamp df_4h (timestamp candle) (ema_short_period bt)
                   (ema_long_period bt) = Inr (Some es, Some el)
                 \<and> es > el
                 \<and> cur' = Some \<lparr> symbol = symbol_v, timeframe = timeframe_v,
                                 entry_time = timestamp candle,
                                 entry_price = close candle,
                                 quantity = trade_amount bt / close candle,
                                 pattern = the pattern_v,
                                 entry_ema_short = es, entry_ema_long = el,
                                 exit_time = None, exit_price = None,
                                 exit_reason = None, exit_ema_short = None,
                                 exit_ema_long = None, pnl = 0, pnl_percent = 0,
                                 fees = 0, net_pnl = 0 \<rparr>)))
   \<and> (\<forall>k st.
        k \<le> length df
        \<and> backtest_loop bt symbol_v timeframe_v df df_4h [2 ..< k]
              (hodl_benchmark bt df (new_result symbol_v timeframe_v df), None) = Inr st \<longrightarrow>
        (\<forall>p \<in> set (positions (fst st)). \<exists>i \<in> {2 ..< length df}. entered_at bt df df_4h i p)
        \<and> (\<forall>p. snd st = Some p \<longrightarrow> (\<exists>i \<in> {2 ..< length df}. entered_at bt df df_4h i p)))
   \<and> (\<forall>final. backtest bt symbol_v timeframe_v df df_4h = Inr final \<longrightarrow>
        (\<forall>p \<in> set (positions final). \<exists>i \<in> {2 ..< length df}. entered_at bt df df_4h i p))"
proof (intro conjI allI impI)
  fix result' cur'
  assume h: "check_entry bt symbol_v timeframe_v df_4h candle pattern_v (result, cur)
        = Inr (result', cur')"
    and "cur \<noteq> None"
  then show "result' = result" and "cur' = cur"
    using check_entry_not_flat [of bt symbol_v timeframe_v df_4h candle pattern_v result _ result' cur']
    by auto
next
  fix result' cur'
  assume h: "check_entry bt symbol_v timeframe_v df_4h candle pattern_v (result, cur)
        = Inr (result', cur')"
    and d: "cur' \<noteq> cur"
  from check_entry_cases [OF h] d
  have c: "cur = None" and b: "is_bullish_pattern pattern_v"
    and e: "\<exists>es el.
                 get_ema_at_timestamp df_4h (timestamp candle) (ema_short_period bt)
                   (ema_long_period bt) = Inr (Some es, Some el)
                 \<and> es > el
                 \<and> cur' = Some \<lparr> symbol = symbol_v, timeframe = timeframe_v,
                                 entry_time = timestamp candle,
                                 entry_price = close candle,
                                 quantity = trade_amount bt / close candle,
                                 pattern = the pattern_v,
                                 entry_ema_short = es, entry_ema_long = el,
                                 exit_time = None, exit_price = None,
                                 exit_reason = None, exit_ema_short = None,
                                 exit_ema_long = None, pnl = 0, pnl_percent = 0,
                                 fees = 0, net_pnl = 0 \<rparr>"
    by blast+
  from c show "cur = None" .
  from is_bullish_pattern_the [OF b]
  show "pattern_v \<in> {Some HAMMER, Some BULLISH_ENGULFING, Some MORNING_STAR}"
    by (cases pattern_v) auto
  from e show "\<exists>es el.
                 get_ema_at_timestamp df_4h (timestamp candle) (ema_short_period bt)
                   (ema_long_period bt) = Inr (Some es, Some el)
                 \<and> es > el
                 \<and> cur' = Some \<lparr> symbol = symbol_v, timeframe = timeframe_v,
                                 entry_time = timestamp candle,
                                 entry_price = close candle,
                                 quantity = trade_amount bt / close candle,
                                 pattern = the pattern_v,
                                 entry_ema_short = es, entry_ema_long = el,
                                 exit_time = None, exit_price = None,
                                 exit_reason = None, exit_ema_short = None,
                                 exit_ema_long = None, pnl = 0, pnl_percent = 0,
                                 fees = 0, net_pnl = 0 \<rparr>" .
next
  fix k st
  assume a: "k \<le> length df
        \<and> backtest_loop bt symbol_v timeframe_v df df_4h [2 ..< k]
              (hodl_benchmark bt df (new_result symbol_v timeframe_v df), None) = Inr st"
  then have r: "\<forall>i \<in> set [2 ..< k]. 2 \<le> i \<and> i < length df" by simp
  from a have l: "backtest_loop bt symbol_v timeframe_v df df_4h [2 ..< k]
              (hodl_benchmark bt df (new_result symbol_v timeframe_v df), None) = Inr st"
    by simp
  from entry_invariant_loop [OF entry_invariant_initial r l]
  have i: "entry_invariant bt df df_4h st" .
  then show "\<forall>p \<in> set (positions (fst st)). \<exists>i \<in> {2 ..< length df}. entered_at bt df df_4h i p"
    by (simp add: entry_invariant_def)
  fix p
  assume "snd st = Some p"
  with i show "\<exists>i \<in> {2 ..< length df}. entered_at bt df df_4h i p"
    by (simp add: entry_invariant_def)
next
  fix final
  assume b: "backtest bt symbol_v timeframe_v df df_4h = Inr final"
  from backtest_Inr [OF b]
  show "\<forall>p \<in> set (positions final). \<exists>i \<in> {2 ..< length df}. entered_at bt df df_4h i p"
  proof (elim disjE conjE exE)
    assume "final = new_result symbol_v timeframe_v df"
    then show ?thesis by (simp add: new_result_def)
  next
    fix st result
    assume l: "backtest_loop bt symbol_v timeframe_v df df_4h [2 ..< length df]
                  (hodl_benchmark bt df (new_result symbol_v timeframe_v df), None) = Inr st"
      and f: "force_close bt df df_4h st = Inr result"
      and e: "final = aggregate_statistics result"
    have r: "\<forall>i \<in> set [2 ..< length df]. 2 \<le> i \<and> i < length df" by simp
    from entry_invariant_loop [OF entry_invariant_initial r l]
    have "entry_invariant bt df df_4h st" .
    from entry_invariant_force_close [OF this f] e show ?thesis
      by (simp add: entry_invariant_def aggregate_statistics_positions)
  qed
qed


theorem entry_guard_witness:
  "check_entry short_backtester ''BTCUSDC'' ''1h'' ref_series_a (trade_series ! 2)
      (detect_patterns trade_series 2) (new_result ''BTCUSDC'' ''1h'' trade_series, None)
     = Inr (new_result ''BTCUSDC'' ''1h'' trade_series, Some entered_position)
   \<and> Some entered_position \<noteq> None
   \<and> detect_patterns trade_series 2 \<in> {Some HAMMER, Some BULLISH_ENGULFING, Some MORNING_STAR}
   \<and> (\<exists>es el. get_ema_at_timestamp ref_series_a (timestamp (trade_series ! 2))
                  (ema_short_period short_backtester) (ema_long_period short_backtester)
                 = Inr (Some es, Some el) \<and> es > el)
   \<and> (\<exists>final p.
         backtest short_backtester ''BTCUSDC'' ''1h'' trade_series ref_series_a = Inr final
         \<and> positions final = [p] \<and> entry_time p = 9 \<and> entry_price p = 10 \<and> quantity p = 10
         \<and> pattern p = HAMMER
         \<and> (\<exists>i \<in> {2 ..< length trade_series}.
               entered_at short_backtester trade_series ref_series_a i p))"
proof -
  note t = entry_guard [where bt = short_backtester and symbol_v = "''BTCUSDC''"
      and timeframe_v = "''1h''" and df = trade_series and df_4h = ref_series_a
      and candle = "trade_series ! 2" and pattern_v = "detect_patterns trade_series 2"
      and result = "new_result ''BTCUSDC'' ''1h'' trade_series" and cur = None]
  have c: "check_entry short_backtester ''BTCUSDC'' ''1h'' ref_series_a (trade_series ! 2)
      (detect_patterns trade_series 2) (new_result ''BTCUSDC'' ''1h'' trade_series, None)
     = Inr (new_result ''BTCUSDC'' ''1h'' trade_series, Some entered_position)"
    by (simp add: check_entry_def trade_series_nth trade_series_patterns ref_series_a_ema
        short_backtester_fields mk_kline_def entered_position_def Let_def del: not_None_eq)
  have d: "Some entered_position \<noteq> None" by simp
  from t c d
  have b: "detect_patterns trade_series 2
             \<in> {Some HAMMER, Some BULLISH_ENGULFING, Some MORNING_STAR}"
    and e: "\<exists>es el. get_ema_at_timestamp ref_series_a (timestamp (trade_series ! 2))
                  (ema_short_period short_backtester) (ema_long_period short_backtester)
                 = Inr (Some es, Some el) \<and> es > el"
    by blast+
  from trade_series_backtest obtain final p where
    f: "backtest short_backtester ''BTCUSDC'' ''1h'' trade_series ref_series_a = Inr final"
       "positions final = [p]" "entry_time p = 9" "entry_price p = 10" "quantity p = 10"
       "pattern p = HAMMER"
    by blast
  from t f(1,2)
  have "\<exists>i \<in> {2 ..< length trade_series}.
               entered_at short_backtester trade_series ref_series_a i p"
    by simp
  with c d b e f show ?thesis by blast
qed

end
